theory Spec2Isabelle
  imports Complex_Main
begin

section \<open>Values\<close>

text \<open>
  A Python float is either a finite number or one of the three non-finite values.
  Finite floats are idealised as real numbers: rounding error of the binary
  representation is outside this development.
\<close>

datatype pyfloat = Finite real | NaN | PosInf | NegInf

fun isnan :: "pyfloat \<Rightarrow> bool" where
  "isnan NaN = True"
| "isnan _ = False"

fun isinf :: "pyfloat \<Rightarrow> bool" where
  "isinf PosInf = True"
| "isinf NegInf = True"
| "isinf _ = False"

text \<open>The exceptions that the analysis can raise.\<close>

datatype error = KeyError | TypeError | ValueError | ZeroDivisionError | OverflowError

text \<open>
  The tree that \<open>model_dump()\<close> hands to \<open>clean_nan_values\<close>: dicts (insertion
  ordered, keys are the strings and integers the analyzers produce), lists and
  scalars.
\<close>

datatype pykey = KStr string | KInt int

datatype pyval =
    PNone
  | PBool bool
  | PInt int
  | PFloat pyfloat
  | PStr string
  | PList "pyval list"
  | PDict "(pykey \<times> pyval) list"

section \<open>app/main.py: clean\_nan\_values\<close>

text \<open>
  The branches are tried in the order of the source: dict, list, float, anything else.
  A bool is an int in Python, never a float, so it falls through unchanged.
\<close>

fun clean_nan_values :: "pyval \<Rightarrow> pyval" where
  "clean_nan_values (PDict kvs) = PDict (map (\<lambda>(k, v). (k, clean_nan_values v)) kvs)"
| "clean_nan_values (PList items) = PList (map clean_nan_values items)"
| "clean_nan_values (PFloat x) = (if isnan x \<or> isinf x then PNone else PFloat x)"
| "clean_nan_values obj = obj"

text \<open>
  The two properties the specification asks of the pass, written from its words:
  a tree holds a non-finite float somewhere, and one tree is another with exactly the
  non-finite floats replaced by \<open>None\<close>.
\<close>

fun contains_non_finite :: "pyval \<Rightarrow> bool" where
  "contains_non_finite (PFloat x) = (isnan x \<or> isinf x)"
| "contains_non_finite (PList items) = list_ex contains_non_finite items"
| "contains_non_finite (PDict kvs) = list_ex (\<lambda>(k, v). contains_non_finite v) kvs"
| "contains_non_finite _ = False"

fun sanitized :: "pyval \<Rightarrow> pyval \<Rightarrow> bool" where
  "sanitized (PDict kvs) t' =
     (case t' of
        PDict kvs' \<Rightarrow> list_all2 (\<lambda>(k, v) (k', v'). k = k' \<and> sanitized v v') kvs kvs'
      | _ \<Rightarrow> False)"
| "sanitized (PList xs) t' =
     (case t' of PList xs' \<Rightarrow> list_all2 sanitized xs xs' | _ \<Rightarrow> False)"
| "sanitized (PFloat x) t' = (if isnan x \<or> isinf x then t' = PNone else t' = PFloat x)"
| "sanitized t t' = (t' = t)"

section \<open>Floating-point arithmetic\<close>

text \<open>
  The operations on doubles that the analyzers use. A result beyond the largest double
  overflows to an infinity, and the infinities and NaN combine as IEEE 754 prescribes;
  within the range the result is the exact one, so rounding to 53 bits (and the sign of
  zero) is outside this development.
\<close>

definition dbl_max :: real where
  "dbl_max = 2 ^ 1024 - 2 ^ 971"

text \<open>The double 1e308, near the top of the range.\<close>

definition huge :: real where
  "huge = 10 ^ 308"

definition fl :: "real \<Rightarrow> pyfloat" where
  "fl x = (if x > dbl_max then PosInf else if x < - dbl_max then NegInf else Finite x)"

fun fneg :: "pyfloat \<Rightarrow> pyfloat" where
  "fneg (Finite x) = Finite (- x)"
| "fneg NaN = NaN"
| "fneg PosInf = NegInf"
| "fneg NegInf = PosInf"

fun fadd :: "pyfloat \<Rightarrow> pyfloat \<Rightarrow> pyfloat" where
  "fadd (Finite x) (Finite y) = fl (x + y)"
| "fadd NaN _ = NaN"
| "fadd _ NaN = NaN"
| "fadd PosInf NegInf = NaN"
| "fadd NegInf PosInf = NaN"
| "fadd PosInf _ = PosInf"
| "fadd _ PosInf = PosInf"
| "fadd NegInf _ = NegInf"
| "fadd _ NegInf = NegInf"

definition fsub :: "pyfloat \<Rightarrow> pyfloat \<Rightarrow> pyfloat" where
  "fsub a b = fadd a (fneg b)"

text \<open>The sign of a float that is not NaN.\<close>

fun float_sign :: "pyfloat \<Rightarrow> int" where
  "float_sign (Finite x) = (if x > 0 then 1 else if x < 0 then - 1 else 0)"
| "float_sign PosInf = 1"
| "float_sign NegInf = - 1"
| "float_sign NaN = 0"

definition signed_inf :: "int \<Rightarrow> pyfloat" where
  "signed_inf s = (if s > 0 then PosInf else if s < 0 then NegInf else NaN)"

fun fmul :: "pyfloat \<Rightarrow> pyfloat \<Rightarrow> pyfloat" where
  "fmul (Finite x) (Finite y) = fl (x * y)"
| "fmul NaN _ = NaN"
| "fmul _ NaN = NaN"
| "fmul a b = signed_inf (float_sign a * float_sign b)"

text \<open>
  Division as numpy does it: a division by zero is an infinity (NaN for 0 / 0), not an
  exception.
\<close>

fun fdiv :: "pyfloat \<Rightarrow> pyfloat \<Rightarrow> pyfloat" where
  "fdiv (Finite x) (Finite y) =
     (if y = 0 then signed_inf (float_sign (Finite x)) else fl (x / y))"
| "fdiv NaN _ = NaN"
| "fdiv _ NaN = NaN"
| "fdiv (Finite x) _ = Finite 0"
| "fdiv a (Finite y) = (if y < 0 then fneg a else a)"
| "fdiv _ _ = NaN"

fun fsqrt :: "pyfloat \<Rightarrow> pyfloat" where
  "fsqrt (Finite x) = (if x < 0 then NaN else Finite (sqrt x))"
| "fsqrt PosInf = PosInf"
| "fsqrt _ = NaN"

fun float_abs :: "pyfloat \<Rightarrow> pyfloat" where
  "float_abs (Finite x) = Finite \<bar>x\<bar>"
| "float_abs NaN = NaN"
| "float_abs _ = PosInf"

text \<open>Comparisons; every comparison with NaN is false.\<close>

fun float_lt :: "pyfloat \<Rightarrow> pyfloat \<Rightarrow> bool" where
  "float_lt (Finite x) (Finite y) = (x < y)"
| "float_lt NaN _ = False"
| "float_lt _ NaN = False"
| "float_lt PosInf _ = False"
| "float_lt _ PosInf = True"
| "float_lt _ NegInf = False"
| "float_lt NegInf _ = True"

definition float_le :: "pyfloat \<Rightarrow> pyfloat \<Rightarrow> bool" where
  "float_le a b = (\<not> isnan a \<and> \<not> isnan b \<and> \<not> float_lt b a)"

fun float_gt :: "pyfloat \<Rightarrow> real \<Rightarrow> bool" where
  "float_gt (Finite x) t = (x > t)"
| "float_gt PosInf t = True"
| "float_gt _ t = False"

fun float_max2 :: "pyfloat \<Rightarrow> pyfloat \<Rightarrow> pyfloat" where
  "float_max2 NaN _ = NaN"
| "float_max2 _ NaN = NaN"
| "float_max2 a b = (if float_lt a b then b else a)"

definition float_max :: "pyfloat list \<Rightarrow> pyfloat" where
  "float_max zs = fold float_max2 (tl zs) (hd zs)"

fun float_min2 :: "pyfloat \<Rightarrow> pyfloat \<Rightarrow> pyfloat" where
  "float_min2 NaN _ = NaN"
| "float_min2 _ NaN = NaN"
| "float_min2 a b = (if float_lt b a then b else a)"

definition float_min :: "pyfloat list \<Rightarrow> pyfloat" where
  "float_min zs = fold float_min2 (tl zs) (hd zs)"

text \<open>A sum adds from left to right.\<close>

definition fsum :: "pyfloat list \<Rightarrow> pyfloat" where
  "fsum xs = foldl fadd (Finite 0) xs"

section \<open>pandas Series\<close>

text \<open>
  A column with missing values is a list of optional values in row order. \<open>dropna\<close>
  keeps the row label of every value that is present, as the pandas index does.
\<close>

fun dropna_from :: "nat \<Rightarrow> 'a option list \<Rightarrow> (nat \<times> 'a) list" where
  "dropna_from i [] = []"
| "dropna_from i (None # xs) = dropna_from (Suc i) xs"
| "dropna_from i (Some v # xs) = (i, v) # dropna_from (Suc i) xs"

definition dropna :: "'a option list \<Rightarrow> (nat \<times> 'a) list" where
  "dropna series = dropna_from 0 series"

text \<open>
  A numeric column is a list of floats in row order; NaN is the missing value, the
  infinities are values like any other.
\<close>

fun notna :: "pyfloat \<Rightarrow> pyfloat option" where
  "notna NaN = None"
| "notna x = Some x"

definition series_mean :: "pyfloat list \<Rightarrow> pyfloat" where
  "series_mean xs = fdiv (fsum xs) (Finite (real (length xs)))"

fun float_insort :: "pyfloat \<Rightarrow> pyfloat list \<Rightarrow> pyfloat list" where
  "float_insort x [] = [x]"
| "float_insort x (y # ys) = (if float_le x y then x # y # ys else y # float_insort x ys)"

definition float_sort :: "pyfloat list \<Rightarrow> pyfloat list" where
  "float_sort xs = foldr float_insort xs []"

definition series_median :: "pyfloat list \<Rightarrow> pyfloat" where
  "series_median xs =
     (let s = float_sort xs; n = length xs
      in if n mod 2 = 1 then s ! (n div 2)
         else fdiv (fadd (s ! (n div 2 - 1)) (s ! (n div 2))) (Finite 2))"

definition sum_sq_dev :: "pyfloat list \<Rightarrow> pyfloat" where
  "sum_sq_dev xs =
     (let m = series_mean xs in fsum (map (\<lambda>x. fmul (fsub x m) (fsub x m)) xs))"

text \<open>\<open>Series.std()\<close> divides by N - 1 and is NaN for a single value.\<close>

definition series_std :: "pyfloat list \<Rightarrow> pyfloat" where
  "series_std xs =
     (if length xs \<le> 1 then NaN
      else fsqrt (fdiv (sum_sq_dev xs) (Finite (real (length xs) - 1))))"

definition series_min :: "pyfloat list \<Rightarrow> pyfloat" where
  "series_min xs = float_min xs"

definition series_max :: "pyfloat list \<Rightarrow> pyfloat" where
  "series_max xs = float_max xs"

text \<open>
  The linear interpolation of numpy between two neighbours \<open>a\<close> and \<open>b\<close> at the
  fraction \<open>t\<close>: \<open>a + (b - a) * t\<close>, replaced by \<open>b - (b - a) * (1 - t)\<close> when
  \<open>t \<ge> 0.5\<close>.
\<close>

definition lerp :: "pyfloat \<Rightarrow> pyfloat \<Rightarrow> real \<Rightarrow> pyfloat" where
  "lerp a b t =
     (let diff_b_a = fsub b a
      in if t \<ge> 1 / 2 then fsub b (fmul diff_b_a (Finite (1 - t)))
         else fadd a (fmul diff_b_a (Finite t)))"

text \<open>
  \<open>Series.quantile(q)\<close>, linear interpolation: the virtual index is \<open>(n - 1) * q\<close>,
  the neighbours are its floor and the next position (clipped to the last one).
\<close>

definition quantile :: "pyfloat list \<Rightarrow> real \<Rightarrow> pyfloat" where
  "quantile xs q =
     (let s = float_sort xs;
          n = length xs;
          h = (real n - 1) * q;
          lo = nat \<lfloor>h\<rfloor>;
          hi = min (lo + 1) (n - 1);
          g = h - real lo
      in lerp (s ! lo) (s ! hi) g)"

text \<open>Central moments as scipy computes them (denominator N).\<close>

definition central_moment :: "(pyfloat \<Rightarrow> pyfloat) \<Rightarrow> pyfloat list \<Rightarrow> pyfloat" where
  "central_moment pow xs =
     (let m = series_mean xs
      in fdiv (fsum (map (\<lambda>x. pow (fsub x m)) xs)) (Finite (real (length xs))))"

definition pow2 :: "pyfloat \<Rightarrow> pyfloat" where
  "pow2 d = fmul d d"

definition pow3 :: "pyfloat \<Rightarrow> pyfloat" where
  "pow3 d = fmul (fmul d d) d"

definition pow4 :: "pyfloat \<Rightarrow> pyfloat" where
  "pow4 d = fmul (fmul d d) (fmul d d)"

definition skew :: "pyfloat list \<Rightarrow> pyfloat" where
  "skew xs = (let m2 = central_moment pow2 xs; m3 = central_moment pow3 xs
              in if m2 = Finite 0 then NaN else fdiv m3 (fmul m2 (fsqrt m2)))"

definition kurtosis_fisher :: "pyfloat list \<Rightarrow> pyfloat" where
  "kurtosis_fisher xs = (let m2 = central_moment pow2 xs; m4 = central_moment pow4 xs
                         in if m2 = Finite 0 then NaN
                            else fsub (fdiv m4 (fmul m2 m2)) (Finite 3))"

text \<open>
  \<open>scipy.stats.zscore\<close>: distance from the mean in population standard deviations;
  with zero deviation every score is 0 / 0.
\<close>

definition zscore :: "pyfloat list \<Rightarrow> pyfloat list" where
  "zscore xs =
     (let m = series_mean xs; sd = fsqrt (central_moment pow2 xs)
      in map (\<lambda>x. fdiv (fsub x m) sd) xs)"

text \<open>The mean of a list of reals, for the correlation of two columns.\<close>

definition mean :: "real list \<Rightarrow> real" where
  "mean xs = sum_list xs / real (length xs)"

section \<open>app/services/statistical\_analyzer.py\<close>

text \<open>
  The \<open>outliers\<close> dict has a fixed set of keys, each of one type; a key that is absent
  is \<open>None\<close>.
\<close>

record outliers =
  o_method :: "string option"
  o_threshold :: "real option"
  o_count :: "nat option"
  o_indices :: "nat list option"
  o_values :: "pyfloat list option"
  o_max_zscore :: "pyfloat option"
  o_bounds :: "(pyfloat \<times> pyfloat) option"

definition no_outlier_keys :: outliers where
  "no_outlier_keys =
     \<lparr>o_method = None, o_threshold = None, o_count = None, o_indices = None,
      o_values = None, o_max_zscore = None, o_bounds = None\<rparr>"

record numeric_stats =
  count :: nat
  mean_val :: pyfloat
  median_val :: pyfloat
  std_val :: pyfloat
  min_val :: pyfloat
  max_val :: pyfloat
  q25 :: pyfloat
  q50 :: pyfloat
  q75 :: pyfloat
  skewness :: "pyfloat option"
  kurtosis :: "pyfloat option"
  outliers :: outliers

definition detect_outliers :: "(nat \<times> pyfloat) list \<Rightarrow> string \<Rightarrow> real \<Rightarrow> outliers" where
  "detect_outliers series method threshold =
     (if method = ''zscore'' then
        (let z_scores = map float_abs (zscore (map snd series));
             flagged = map fst (filter (\<lambda>(e, z). float_gt z threshold) (zip series z_scores));
             outlier_indices = map fst flagged;
             outlier_values = map snd flagged
         in no_outlier_keys
              \<lparr>o_method := Some ''zscore'',
               o_threshold := Some threshold,
               o_count := Some (length outlier_indices),
               o_indices := Some (take 100 outlier_indices),
               o_values := Some (take 100 outlier_values),
               o_max_zscore :=
                 Some (if length z_scores > 0 then float_max z_scores else Finite 0)\<rparr>)
      else if method = ''iqr'' then
        (let q1 = quantile (map snd series) (25 / 100);
             q3 = quantile (map snd series) (75 / 100);
             iqr = fsub q3 q1;
             lower_bound = fsub q1 (fmul (Finite threshold) iqr);
             upper_bound = fadd q3 (fmul (Finite threshold) iqr);
             flagged = filter (\<lambda>(i, v). float_lt v lower_bound \<or> float_lt upper_bound v) series;
             outlier_indices = map fst flagged;
             outlier_values = map snd flagged
         in no_outlier_keys
              \<lparr>o_method := Some ''iqr'',
               o_threshold := Some threshold,
               o_count := Some (length outlier_indices),
               o_indices := Some (take 100 outlier_indices),
               o_values := Some (take 100 outlier_values),
               o_bounds := Some (lower_bound, upper_bound)\<rparr>)
      else no_outlier_keys \<lparr>o_method := Some method, o_count := Some 0\<rparr>)"

definition empty_numeric_stats :: numeric_stats where
  "empty_numeric_stats =
     \<lparr>count = 0, mean_val = Finite 0, median_val = Finite 0, std_val = Finite 0,
      min_val = Finite 0, max_val = Finite 0, q25 = Finite 0, q50 = Finite 0,
      q75 = Finite 0, skewness = None, kurtosis = None,
      outliers = no_outlier_keys \<lparr>o_count := Some 0\<rparr>\<rparr>"

definition analyze_numeric_field :: "pyfloat list \<Rightarrow> string \<Rightarrow> real \<Rightarrow> numeric_stats" where
  "analyze_numeric_field series outlier_method outlier_threshold =
     (let clean_data = dropna (map notna series);
          vals = map snd clean_data
      in if length clean_data = 0 then empty_numeric_stats
         else
           \<lparr>count = length clean_data,
            mean_val = series_mean vals,
            median_val = series_median vals,
            std_val = series_std vals,
            min_val = series_min vals,
            max_val = series_max vals,
            q25 = quantile vals (25 / 100),
            q50 = quantile vals (50 / 100),
            q75 = quantile vals (75 / 100),
            skewness = Some (skew vals),
            kurtosis = Some (kurtosis_fisher vals),
            outliers = detect_outliers clean_data outlier_method outlier_threshold\<rparr>)"

text \<open>
  For the proofs: the interpolation over the reals on a sorted list at a virtual index,
  and the least and greatest element of a list of reals.
\<close>

definition interp :: "real list \<Rightarrow> real \<Rightarrow> real" where
  "interp s h = (let lo = nat \<lfloor>h\<rfloor>; hi = min (lo + 1) (length s - 1)
                 in s ! lo + (s ! hi - s ! lo) * (h - real lo))"

definition list_min :: "real list \<Rightarrow> real" where
  "list_min xs = fold min (tl xs) (hd xs)"

definition list_max :: "real list \<Rightarrow> real" where
  "list_max xs = fold max (tl xs) (hd xs)"

text \<open>
  A float is a double when it is an infinity, NaN, or a number within the range of the
  doubles.
\<close>

fun is_double :: "pyfloat \<Rightarrow> bool" where
  "is_double (Finite x) = (\<bar>x\<bar> \<le> dbl_max)"
| "is_double _ = True"

fun is_finite :: "pyfloat \<Rightarrow> bool" where
  "is_finite (Finite x) = True"
| "is_finite _ = False"

fun real_of :: "pyfloat \<Rightarrow> real" where
  "real_of (Finite x) = x"
| "real_of _ = 0"

section \<open>Python and pandas helpers\<close>

text \<open>
  \<open>round(x, ndigits)\<close> rounds to the nearest multiple of \<open>10 ^ - ndigits\<close>, a tie to
  the even neighbour.
\<close>

definition py_round :: "real \<Rightarrow> int" where
  "py_round x =
     (let f = \<lfloor>x\<rfloor>; d = x - of_int f
      in if d < 1 / 2 then f
         else if d > 1 / 2 then f + 1
         else if even f then f else f + 1)"

definition round_ndigits :: "real \<Rightarrow> nat \<Rightarrow> real" where
  "round_ndigits x ndigits = of_int (py_round (x * 10 ^ ndigits)) / 10 ^ ndigits"

text \<open>\<open>head(n)\<close>: the first \<open>n\<close> rows, or all but the last \<open>-n\<close> when \<open>n\<close> is negative.\<close>

definition py_head :: "int \<Rightarrow> 'a list \<Rightarrow> 'a list" where
  "py_head n xs = (if n \<ge> 0 then take (nat n) xs else take (length xs - nat (- n)) xs)"

text \<open>Distinct values in the order of their first appearance.\<close>

definition unique_values :: "'a list \<Rightarrow> 'a list" where
  "unique_values xs = rev (remdups (rev xs))"

text \<open>
  \<open>Series.value_counts()\<close>: one row per distinct value with its number of
  occurrences, most frequent first; values of equal frequency stay in the order of
  their first appearance.
\<close>

definition value_counts :: "'a list \<Rightarrow> ('a \<times> nat) list" where
  "value_counts xs =
     sort_key (\<lambda>(v, c). - int c) (map (\<lambda>v. (v, count_list xs v)) (unique_values xs))"

text \<open>\<open>value_counts().sort_index()\<close>: the same rows, ordered by value.\<close>

definition value_counts_sort_index :: "int list \<Rightarrow> (int \<times> nat) list" where
  "value_counts_sort_index xs = map (\<lambda>v. (v, count_list xs v)) (sort (remdups xs))"

section \<open>app/services/categorical\_analyzer.py\<close>

record top_entry =
  te_value :: string
  te_count :: nat
  te_percent :: real

record categorical_stats =
  unique_count :: nat
  top_n :: "top_entry list"
  concentration_risk :: real
  rare_categories :: "string list"

definition empty_categorical_stats :: categorical_stats where
  "empty_categorical_stats =
     \<lparr>unique_count = 0, top_n = [], concentration_risk = 0, rare_categories = []\<rparr>"

text \<open>
  The analyzer is generic in the type of the values; \<open>str\<close> is Python's \<open>str()\<close> on
  that type.
\<close>

definition analyze_categorical_field ::
    "('a \<Rightarrow> string) \<Rightarrow> 'a option list \<Rightarrow> int \<Rightarrow> categorical_stats" where
  "analyze_categorical_field str series top_n_arg =
     (let clean_data = map snd (dropna series)
      in if length clean_data = 0 then empty_categorical_stats
         else
           (let vc = value_counts clean_data;
                total_count = length clean_data;
                top_categories =
                  map (\<lambda>(v, c).
                         \<lparr>te_value = str v, te_count = c,
                          te_percent = round_ndigits (real c / real total_count * 100) 2\<rparr>)
                      (py_head top_n_arg vc);
                proportions = map (\<lambda>(v, c). real c / real total_count) vc;
                hhi = sum_list (map (\<lambda>p. p\<^sup>2) proportions);
                rare_threshold = real total_count * (1 / 100);
                rare = map (\<lambda>(v, c). str v) (filter (\<lambda>(v, c). real c < rare_threshold) vc)
            in \<lparr>unique_count = length vc,
                top_n = top_categories,
                concentration_risk = hhi,
                rare_categories = take 50 rare\<rparr>))"

section \<open>app/services/temporal\_analyzer.py\<close>

text \<open>
  A pandas timestamp is a 64-bit number of nanoseconds since the epoch, a timedelta a
  64-bit number of nanoseconds; \<open>.days\<close> is the floor of the division by one day. The
  difference of two timestamps that does not fit a timedelta raises (an overflow error,
  whose class depends on the version of pandas). A series handed to the analyzer has been
  through \<open>pd.to_datetime(errors="coerce")\<close>: \<open>None\<close> is NaT.
\<close>

definition day_ns :: int where
  "day_ns = 86400000000000"

definition hour_ns :: int where
  "hour_ns = 3600000000000"

definition minute_ns :: int where
  "minute_ns = 60000000000"

definition i64_max :: int where
  "i64_max = 9223372036854775807"

definition checked_sub :: "int \<Rightarrow> int \<Rightarrow> error + int" where
  "checked_sub a b = (if \<bar>a - b\<bar> > i64_max then Inl OverflowError else Inr (a - b))"

definition days :: "int \<Rightarrow> int" where
  "days td = td div day_ns"

definition dt_hour :: "int \<Rightarrow> int" where
  "dt_hour t = (t mod day_ns) div hour_ns"

definition dt_minute :: "int \<Rightarrow> int" where
  "dt_minute t = (t mod hour_ns) div minute_ns"

definition dt_date :: "int \<Rightarrow> int" where
  "dt_date t = t div day_ns"

text \<open>
  \<open>Series.diff()\<close>: NaT in the first row, then each value minus the one before; the
  whole operation raises when one of the differences does not fit.
\<close>

fun diff_from :: "int \<Rightarrow> int list \<Rightarrow> error + int option list" where
  "diff_from prev [] = Inr []"
| "diff_from prev (x # xs) =
     (case checked_sub x prev of
        Inl e \<Rightarrow> Inl e
      | Inr d \<Rightarrow>
          (case diff_from x xs of
             Inl e \<Rightarrow> Inl e
           | Inr ds \<Rightarrow> Inr (Some d # ds)))"

fun diff :: "int list \<Rightarrow> error + int option list" where
  "diff [] = Inr []"
| "diff (x # xs) =
     (case diff_from x xs of
        Inl e \<Rightarrow> Inl e
      | Inr ds \<Rightarrow> Inr (None # ds))"

record gaps =
  g_count :: nat
  g_max_gap_days :: int
  g_avg_gap_days :: "int option"

definition timedelta_max :: "int list \<Rightarrow> int" where
  "timedelta_max xs = fold max (tl xs) (hd xs)"

text \<open>
  The mean of a series of timedeltas is pandas' own: it adds and divides in float64,
  turns the quotient back into a timedelta and raises when that does not fit. It is a
  parameter \<open>mean_td\<close> of the analyzer. The source rounds the \<open>.days\<close> of that mean to
  two decimals, which leaves the whole number of days as it is.
\<close>

definition analyze_gaps :: "(int list \<Rightarrow> error + int) \<Rightarrow> int list \<Rightarrow> error + gaps" where
  "analyze_gaps mean_td sorted_dates =
     (if length sorted_dates < 2
      then Inr \<lparr>g_count = 0, g_max_gap_days = 0, g_avg_gap_days = None\<rparr>
      else
        (case diff sorted_dates of
           Inl e \<Rightarrow> Inl e
         | Inr all_diffs \<Rightarrow>
        (let diffs = drop 1 all_diffs;
             gaps = map the
                      (filter (\<lambda>d. case d of None \<Rightarrow> False | Some td \<Rightarrow> td > 1 * day_ns) diffs)
         in if length gaps = 0
            then Inr \<lparr>g_count = 0, g_max_gap_days = 0, g_avg_gap_days = None\<rparr>
            else
              (let max_gap = timedelta_max gaps
               in case (if length gaps > 0
                        then (case mean_td gaps of Inl e \<Rightarrow> Inl e | Inr m \<Rightarrow> Inr (days m))
                        else Inr 0) of
                    Inl e \<Rightarrow> Inl e
                  | Inr avg \<Rightarrow>
                      Inr \<lparr>g_count = length gaps,
                           g_max_gap_days = days max_gap,
                           g_avg_gap_days = Some avg\<rparr>))))"

datatype distribution = Hourly "(int \<times> nat) list" | Daily "(int \<times> nat) list"

definition analyze_distribution :: "int list \<Rightarrow> distribution" where
  "analyze_distribution dates =
     (let has_time = (list_ex (\<lambda>t. dt_hour t \<noteq> 0) dates \<or> list_ex (\<lambda>t. dt_minute t \<noteq> 0) dates)
      in if has_time
         then Hourly (value_counts_sort_index (map dt_hour dates))
         else Daily (py_head 100 (value_counts_sort_index (map dt_date dates))))"

text \<open>
  The range keeps \<open>start\<close> and \<open>end\<close> as timestamps; \<open>isoformat()\<close> renders them as
  text.
\<close>

record time_range =
  tr_start :: "int option"
  tr_end :: "int option"
  tr_days :: int

record temporal_stats =
  ts_range :: time_range
  ts_gaps :: "gaps option"
  ts_distribution :: "distribution option"

definition empty_temporal_stats :: temporal_stats where
  "empty_temporal_stats =
     \<lparr>ts_range = \<lparr>tr_start = None, tr_end = None, tr_days = 0\<rparr>,
      ts_gaps = None, ts_distribution = None\<rparr>"

definition analyze_temporal_field ::
    "(int list \<Rightarrow> error + int) \<Rightarrow> int option list \<Rightarrow> error + temporal_stats" where
  "analyze_temporal_field mean_td series =
     (let clean_data = map snd (dropna series)
      in if length clean_data = 0 then Inr empty_temporal_stats
         else
           (let sorted_dates = sort clean_data;
                start_date = hd sorted_dates;
                end_date = last sorted_dates
            in case checked_sub end_date start_date of
                 Inl e \<Rightarrow> Inl e
               | Inr range_td \<Rightarrow>
                   (case analyze_gaps mean_td sorted_dates of
                      Inl e \<Rightarrow> Inl e
                    | Inr gaps \<Rightarrow>
                        Inr \<lparr>ts_range = \<lparr>tr_start = Some start_date, tr_end = Some end_date,
                                          tr_days = days range_td\<rparr>,
                             ts_gaps = Some gaps,
                             ts_distribution = Some (analyze_distribution clean_data)\<rparr>)))"

text \<open>
  The gap analysis in the words of the specification: the differences of consecutive
  sorted timestamps that exceed one day.
\<close>

definition flagged_gaps :: "int list \<Rightarrow> int list" where
  "flagged_gaps s =
     filter (\<lambda>d. d > day_ns) (map (\<lambda>i. s ! (i + 1) - s ! i) [0 ..< length s - 1])"

section \<open>pandas DataFrame\<close>

text \<open>
  A record of the dataset is a dict from field names to scalars: a number, a string or
  a missing value (JSON null). \<open>pd.DataFrame(data)\<close> has one row per record and one
  column per field name, in the order of first appearance; a field that a record lacks
  is missing in that row.
\<close>

datatype cell = Num real | Text string | Missing

type_synonym row = "(string \<times> cell) list"

fun is_text :: "cell \<Rightarrow> bool" where
  "is_text (Text s) = True"
| "is_text _ = False"

fun is_num :: "cell \<Rightarrow> bool" where
  "is_num (Num x) = True"
| "is_num _ = False"

fun to_float :: "cell \<Rightarrow> real option" where
  "to_float (Num x) = Some x"
| "to_float _ = None"

fun to_pyfloat :: "cell \<Rightarrow> pyfloat" where
  "to_pyfloat (Num x) = Finite x"
| "to_pyfloat _ = NaN"

fun to_object :: "cell \<Rightarrow> cell option" where
  "to_object Missing = None"
| "to_object c = Some c"

definition df_columns :: "row list \<Rightarrow> string list" where
  "df_columns data = unique_values (concat (map (map fst) data))"

definition df_empty :: "row list \<Rightarrow> bool" where
  "df_empty data = (length data = 0 \<or> length (df_columns data) = 0)"

definition df_column :: "row list \<Rightarrow> string \<Rightarrow> cell list" where
  "df_column data field =
     map (\<lambda>record. case map_of record field of None \<Rightarrow> Missing | Some c \<Rightarrow> c) data"

text \<open>
  A column is of a numeric dtype when it holds numbers and no string; a column with a
  string, or with missing values only, is of dtype object.
\<close>

definition is_numeric_dtype :: "cell list \<Rightarrow> bool" where
  "is_numeric_dtype cells = (list_ex is_num cells \<and> \<not> list_ex is_text cells)"

text \<open>
  A numeric reduction (mean, sum, histogram) over a column that holds a string raises.
\<close>

definition numeric_series :: "cell list \<Rightarrow> error + pyfloat list" where
  "numeric_series cells =
     (if list_ex is_text cells then Inl TypeError else Inr (map to_pyfloat cells))"

text \<open>
  A Python dict keeps insertion order; assigning to a key that is present replaces its
  value in place.
\<close>

fun dict_set :: "('k \<times> 'v) list \<Rightarrow> 'k \<Rightarrow> 'v \<Rightarrow> ('k \<times> 'v) list" where
  "dict_set [] k v = [(k, v)]"
| "dict_set ((k', v') # d) k v = (if k' = k then (k, v) # d else (k', v') # dict_set d k v)"

text \<open>
  The functions of the libraries that are parameters of the model:
  \<open>pd.to_datetime(errors="coerce")\<close> on a column (\<open>None\<close> is NaT), \<open>str()\<close> of a
  float, and the mean of a series of timedeltas.
\<close>

record pylib =
  to_datetime :: "cell list \<Rightarrow> int option list"
  float_str :: "real \<Rightarrow> string"
  timedelta_mean :: "int list \<Rightarrow> error + int"

fun cell_str :: "pylib \<Rightarrow> cell \<Rightarrow> string" where
  "cell_str lib (Text s) = s"
| "cell_str lib (Num x) = float_str lib x"
| "cell_str lib Missing = ''None''"

section \<open>app/services/statistical\_analyzer.py: compute\_correlations\<close>

text \<open>
  \<open>DataFrame.corr(method="pearson")\<close> for two columns: over the rows where both are
  present; NaN (\<open>None\<close>) without such a row or when a column is constant there.
\<close>

fun complete_pairs :: "real option list \<Rightarrow> real option list \<Rightarrow> (real \<times> real) list" where
  "complete_pairs (Some x # xs) (Some y # ys) = (x, y) # complete_pairs xs ys"
| "complete_pairs (_ # xs) (_ # ys) = complete_pairs xs ys"
| "complete_pairs _ _ = []"

definition pearson_corr :: "real option list \<Rightarrow> real option list \<Rightarrow> real option" where
  "pearson_corr xs ys =
     (let ps = complete_pairs xs ys
      in if length ps < 1 then None
         else
           (let mx = mean (map fst ps);
                my = mean (map snd ps);
                covxy = sum_list (map (\<lambda>(x, y). (x - mx) * (y - my)) ps);
                ssqdm_x = sum_list (map (\<lambda>(x, y). (x - mx)\<^sup>2) ps);
                ssqdm_y = sum_list (map (\<lambda>(x, y). (y - my)\<^sup>2) ps);
                divisor = sqrt (ssqdm_x * ssqdm_y)
            in if divisor \<noteq> 0 then Some (covxy / divisor) else None))"

record significant_entry =
  se_field1 :: string
  se_field2 :: string
  se_r :: real
  se_strength :: string

record correlations =
  pearson :: "(string \<times> real) list"
  significant :: "significant_entry list"

definition empty_correlations :: correlations where
  "empty_correlations = \<lparr>pearson = [], significant = []\<rparr>"

text \<open>The body of the two nested loops, for one pair of enumerated columns.\<close>

definition corr_pair ::
    "(string \<Rightarrow> string \<Rightarrow> real option) \<Rightarrow> nat \<times> string \<Rightarrow> nat \<times> string
      \<Rightarrow> correlations \<Rightarrow> correlations" where
  "corr_pair corr_matrix ic1 jc2 acc =
     (case ic1 of (i, col1) \<Rightarrow> case jc2 of (j, col2) \<Rightarrow>
        if i < j then
          (case corr_matrix col1 col2 of
             None \<Rightarrow> acc
           | Some r_value \<Rightarrow>
               \<lparr>pearson = dict_set (pearson acc) (col1 @ ''_'' @ col2) r_value,
                significant =
                  (if \<bar>r_value\<bar> > 7 / 10
                   then significant acc @
                          [\<lparr>se_field1 = col1, se_field2 = col2, se_r = r_value,
                            se_strength = (if \<bar>r_value\<bar> > 9 / 10 then ''strong''
                                           else ''moderate'')\<rparr>]
                   else significant acc)\<rparr>)
        else acc)"

text \<open>
  \<open>df[numeric_fields].select_dtypes(include=[np.number])\<close>: the listed fields that are
  columns of a numeric dtype, in the listed order.
\<close>

definition select_numeric :: "row list \<Rightarrow> string list \<Rightarrow> string list" where
  "select_numeric df numeric_fields =
     filter (\<lambda>f. is_numeric_dtype (df_column df f)) numeric_fields"

definition corr_matrix :: "row list \<Rightarrow> string \<Rightarrow> string \<Rightarrow> real option" where
  "corr_matrix df col1 col2 =
     pearson_corr (map to_float (df_column df col1)) (map to_float (df_column df col2))"

text \<open>
  \<open>df[numeric_fields]\<close> raises for a field that is no column. With a column selected
  twice, \<open>corr_matrix.loc[col1, col2]\<close> is not a scalar and its truth value raises.
\<close>

definition compute_correlations :: "row list \<Rightarrow> string list \<Rightarrow> error + correlations" where
  "compute_correlations df numeric_fields =
     (if length numeric_fields < 2 then Inr empty_correlations
      else if \<not> list_all (\<lambda>f. f \<in> set (df_columns df)) numeric_fields then Inl KeyError
      else
        (let numeric_df = select_numeric df numeric_fields
         in if length numeric_df < 2 then Inr empty_correlations
            else if \<not> distinct numeric_df then Inl ValueError
            else
              (let columns = enumerate 0 numeric_df
               in Inr (fold (\<lambda>ic1 acc. fold (\<lambda>jc2 acc'. corr_pair (corr_matrix df) ic1 jc2 acc')
                                            columns acc)
                            columns empty_correlations))))"

text \<open>
  The pairs the specification asks for: the upper triangle of the pair matrix, row by
  row, without the pairs whose coefficient is NaN; the entry of the significant list for
  a pair; the key of a pair in the map.
\<close>


definition is_significant :: "string \<times> string \<times> real \<Rightarrow> bool" where
  "is_significant e = (case e of (col1, col2, r) \<Rightarrow> \<bar>r\<bar> > 7 / 10)"

definition significant_of :: "string \<times> string \<times> real \<Rightarrow> significant_entry" where
  "significant_of e =
     (case e of (col1, col2, r) \<Rightarrow>
        \<lparr>se_field1 = col1, se_field2 = col2, se_r = r,
         se_strength = (if \<bar>r\<bar> > 9 / 10 then ''strong'' else ''moderate'')\<rparr>)"

definition pair_key :: "string \<times> string \<times> real \<Rightarrow> string \<times> real" where
  "pair_key e = (case e of (col1, col2, r) \<Rightarrow> (col1 @ ''_'' @ col2, r))"

definition unordered :: "string \<times> string \<times> real \<Rightarrow> string set" where
  "unordered e = (case e of (col1, col2, r) \<Rightarrow> {col1, col2})"

definition upper_triangle :: "nat \<Rightarrow> (nat \<times> nat) list" where
  "upper_triangle n = filter (\<lambda>(i, j). i < j) (List.product [0 ..< n] [0 ..< n])"

definition emitted_pairs ::
    "(string \<Rightarrow> string \<Rightarrow> real option) \<Rightarrow> string list \<Rightarrow> (string \<times> string \<times> real) list" where
  "emitted_pairs cm cols =
     List.map_filter
       (\<lambda>(i, j). map_option (\<lambda>r. (cols ! i, cols ! j, r)) (cm (cols ! i) (cols ! j)))
       (upper_triangle (length cols))"

text \<open>The update that one emitted pair makes to the result.\<close>

definition emit :: "string \<times> string \<times> real \<Rightarrow> correlations \<Rightarrow> correlations" where
  "emit e acc =
     \<lparr>pearson = dict_set (pearson acc) (fst (pair_key e)) (snd (pair_key e)),
      significant = (if is_significant e then significant acc @ [significant_of e]
                     else significant acc)\<rparr>"

definition visit :: "(string \<Rightarrow> string \<Rightarrow> real option) \<Rightarrow> string list \<Rightarrow> nat \<times> nat
    \<Rightarrow> correlations \<Rightarrow> correlations" where
  "visit cm cols p acc =
     (case cm (cols ! fst p) (cols ! snd p) of
        None \<Rightarrow> acc
      | Some r \<Rightarrow> emit (cols ! fst p, cols ! snd p, r) acc)"

section \<open>Text formatting\<close>

definition digit_char :: "nat \<Rightarrow> char" where
  "digit_char d = ''0123456789'' ! d"

fun str_nat :: "nat \<Rightarrow> string" where
  "str_nat n = (if n < 10 then [digit_char n] else str_nat (n div 10) @ [digit_char (n mod 10)])"

declare str_nat.simps [simp del]

text \<open>The format \<open>{x:.3f}\<close>: three decimals, rounded.\<close>

definition format_3f :: "real \<Rightarrow> string" where
  "format_3f x =
     (let n = nat (py_round (\<bar>x\<bar> * 1000))
      in (if x < 0 then ''-'' else []) @ str_nat (n div 1000) @ ''.'' @
         [digit_char (n div 100 mod 10), digit_char (n div 10 mod 10), digit_char (n mod 10)])"

section \<open>app/services/datacard\_generator.py: \_detect\_anomalies\<close>

datatype anomaly_details =
    OutlierDetails "string option" "real option" real
  | ConcentrationDetails real "string option" real

record anomaly =
  an_type :: string
  an_field :: string
  an_severity :: string
  an_description :: string
  an_affected_records :: "nat list"
  an_details :: anomaly_details

text \<open>\<open>stats.outliers.get("count", 0)\<close>\<close>

definition outlier_count_of :: "numeric_stats \<Rightarrow> nat" where
  "outlier_count_of stats = (case o_count (outliers stats) of None \<Rightarrow> 0 | Some c \<Rightarrow> c)"

definition outlier_anomaly :: "nat \<Rightarrow> string \<Rightarrow> numeric_stats \<Rightarrow> anomaly" where
  "outlier_anomaly len_df field stats =
     (let outlier_count = outlier_count_of stats;
          severity = (if real outlier_count > real len_df * (1 / 10) then ''high'' else ''medium'')
      in \<lparr>an_type = ''statistical_outlier'',
          an_field = field,
          an_severity = severity,
          an_description =
            str_nat outlier_count @ '' outliers detected in '' @ field @ '' using '' @
            (case o_method (outliers stats) of None \<Rightarrow> ''unknown'' | Some m \<Rightarrow> m) @ '' method'',
          an_affected_records =
            take 100 (case o_indices (outliers stats) of None \<Rightarrow> [] | Some inds \<Rightarrow> inds),
          an_details =
            OutlierDetails (o_method (outliers stats)) (o_threshold (outliers stats))
              (round_ndigits (real outlier_count / real len_df * 100) 2)\<rparr>)"

text \<open>
  The first loop. The percentage divides by the number of records, which raises when
  there is none.
\<close>

fun outlier_loop :: "nat \<Rightarrow> (string \<times> numeric_stats) list \<Rightarrow> anomaly list \<Rightarrow> error + anomaly list" where
  "outlier_loop len_df [] anomalies = Inr anomalies"
| "outlier_loop len_df ((field, stats) # items) anomalies =
     (if outlier_count_of stats > 0 then
        (if len_df = 0 then Inl ZeroDivisionError
         else outlier_loop len_df items (anomalies @ [outlier_anomaly len_df field stats]))
      else outlier_loop len_df items anomalies)"

definition concentration_anomaly :: "string \<Rightarrow> categorical_stats \<Rightarrow> anomaly" where
  "concentration_anomaly field stats =
     (let top_entity = (case top_n stats of [] \<Rightarrow> None | e # rest \<Rightarrow> Some e)
      in \<lparr>an_type = ''concentration_risk'',
          an_field = field,
          an_severity = (if concentration_risk stats > 5 / 10 then ''high'' else ''medium''),
          an_description =
            ''High concentration detected in '' @ field @ '' (HHI: '' @
            format_3f (concentration_risk stats) @ '')'',
          an_affected_records = [],
          an_details =
            ConcentrationDetails (concentration_risk stats)
              (case top_entity of None \<Rightarrow> None | Some e \<Rightarrow> Some (te_value e))
              (case top_entity of None \<Rightarrow> 0 | Some e \<Rightarrow> te_percent e)\<rparr>)"

fun concentration_loop :: "(string \<times> categorical_stats) list \<Rightarrow> anomaly list \<Rightarrow> anomaly list" where
  "concentration_loop [] anomalies = anomalies"
| "concentration_loop ((field, stats) # items) anomalies =
     (if concentration_risk stats > 25 / 100
      then concentration_loop items (anomalies @ [concentration_anomaly field stats])
      else concentration_loop items anomalies)"

definition detect_anomalies ::
    "nat \<Rightarrow> (string \<times> numeric_stats) list \<Rightarrow> (string \<times> categorical_stats) list
      \<Rightarrow> error + anomaly list" where
  "detect_anomalies len_df numeric_stats categorical_stats =
     (case outlier_loop len_df numeric_stats [] of
        Inl e \<Rightarrow> Inl e
      | Inr anomalies \<Rightarrow> Inr (concentration_loop categorical_stats anomalies))"

section \<open>app/services/schema\_inference.py\<close>

record schema_info =
  sc_numeric :: "string list"
  sc_categorical :: "string list"
  sc_temporal :: "string list"

text \<open>
  A column of records is never of a datetime dtype, so only the branch for dtype object
  can answer yes: the first ten values that are present must all parse.
\<close>

definition is_temporal :: "pylib \<Rightarrow> cell list \<Rightarrow> bool" where
  "is_temporal lib series =
     (if \<not> is_numeric_dtype series then
        (let sample = take 10 (filter (\<lambda>c. c \<noteq> Missing) series)
         in if length sample = 0 then False
            else list_all (\<lambda>t. t \<noteq> None) (to_datetime lib sample))
      else False)"

definition infer_step :: "pylib \<Rightarrow> row list \<Rightarrow> string \<Rightarrow> schema_info \<Rightarrow> schema_info" where
  "infer_step lib df col schema =
     (if take 1 col = ''_'' then schema
      else if is_temporal lib (df_column df col)
        then schema \<lparr>sc_temporal := sc_temporal schema @ [col]\<rparr>
      else if is_numeric_dtype (df_column df col)
        then schema \<lparr>sc_numeric := sc_numeric schema @ [col]\<rparr>
      else schema \<lparr>sc_categorical := sc_categorical schema @ [col]\<rparr>)"

definition infer_schema :: "pylib \<Rightarrow> row list \<Rightarrow> schema_info" where
  "infer_schema lib df =
     fold (infer_step lib df) (df_columns df)
       \<lparr>sc_numeric = [], sc_categorical = [], sc_temporal = []\<rparr>"

section \<open>app/services/datacard\_generator.py: generate\<close>

record options =
  opt_compute_correlations :: bool
  opt_outlier_method :: string
  opt_outlier_threshold :: real
  opt_top_n :: int
  opt_include_distributions :: bool

record analysis_request =
  rq_data :: "row list"
  rq_schema :: "schema_info option"
  rq_options :: options

text \<open>
  The summary dict: \<open>record_count\<close> is always there, the other keys only for a dataset
  that is not empty, the last two only when they apply.
\<close>

record summary =
  sm_record_count :: nat
  sm_field_count :: "nat option"
  sm_numeric_fields :: "nat option"
  sm_categorical_fields :: "nat option"
  sm_temporal_fields :: "nat option"
  sm_total_notional :: "pyfloat option"
  sm_time_range :: "(int \<times> int) option"

text \<open>The loop over "amount", "notional", "value" with its \<open>break\<close>.\<close>

fun total_notional_loop ::
    "row list \<Rightarrow> schema_info \<Rightarrow> string list \<Rightarrow> error + pyfloat option" where
  "total_notional_loop df schema [] = Inr None"
| "total_notional_loop df schema (field # others) =
     (if field \<in> set (df_columns df) \<and> field \<in> set (sc_numeric schema) then
        (case numeric_series (df_column df field) of
           Inl e \<Rightarrow> Inl e
         | Inr series \<Rightarrow> Inr (Some (fsum (map snd (dropna (map notna series))))))
      else total_notional_loop df schema others)"

definition timestamp_min :: "int list \<Rightarrow> int" where
  "timestamp_min xs = fold min (tl xs) (hd xs)"

definition timestamp_max :: "int list \<Rightarrow> int" where
  "timestamp_max xs = fold max (tl xs) (hd xs)"

definition summary_time_range :: "pylib \<Rightarrow> row list \<Rightarrow> schema_info \<Rightarrow> (int \<times> int) option" where
  "summary_time_range lib df schema =
     (case sc_temporal schema of
        [] \<Rightarrow> None
      | first # rest \<Rightarrow>
          if first \<in> set (df_columns df) then
            (let dates = map snd (dropna (to_datetime lib (df_column df first)))
             in if length dates > 0 then Some (timestamp_min dates, timestamp_max dates)
                else None)
          else None)"

definition generate_summary :: "pylib \<Rightarrow> row list \<Rightarrow> schema_info \<Rightarrow> error + summary" where
  "generate_summary lib df schema =
     (case total_notional_loop df schema [''amount'', ''notional'', ''value''] of
        Inl e \<Rightarrow> Inl e
      | Inr notional \<Rightarrow>
          Inr \<lparr>sm_record_count = length df,
               sm_field_count = Some (length (df_columns df)),
               sm_numeric_fields = Some (length (sc_numeric schema)),
               sm_categorical_fields = Some (length (sc_categorical schema)),
               sm_temporal_fields = Some (length (sc_temporal schema)),
               sm_total_notional = notional,
               sm_time_range = summary_time_range lib df schema\<rparr>)"

text \<open>The three loops that fill the stats dicts, in the order of the schema lists.\<close>

fun numeric_loop ::
    "row list \<Rightarrow> options \<Rightarrow> string list \<Rightarrow> (string \<times> numeric_stats) list
      \<Rightarrow> error + (string \<times> numeric_stats) list" where
  "numeric_loop df opts [] stats = Inr stats"
| "numeric_loop df opts (field # others) stats =
     (if field \<in> set (df_columns df) then
        (case numeric_series (df_column df field) of
           Inl e \<Rightarrow> Inl e
         | Inr series \<Rightarrow>
             numeric_loop df opts others
               (dict_set stats field
                  (analyze_numeric_field series (opt_outlier_method opts)
                     (opt_outlier_threshold opts))))
      else numeric_loop df opts others stats)"

fun categorical_loop ::
    "pylib \<Rightarrow> row list \<Rightarrow> options \<Rightarrow> string list \<Rightarrow> (string \<times> categorical_stats) list
      \<Rightarrow> (string \<times> categorical_stats) list" where
  "categorical_loop lib df opts [] stats = stats"
| "categorical_loop lib df opts (field # others) stats =
     (if field \<in> set (df_columns df) then
        categorical_loop lib df opts others
          (dict_set stats field
             (analyze_categorical_field (cell_str lib) (map to_object (df_column df field))
                (opt_top_n opts)))
      else categorical_loop lib df opts others stats)"

fun temporal_loop ::
    "pylib \<Rightarrow> row list \<Rightarrow> string list \<Rightarrow> (string \<times> temporal_stats) list
      \<Rightarrow> error + (string \<times> temporal_stats) list" where
  "temporal_loop lib df [] stats = Inr stats"
| "temporal_loop lib df (field # others) stats =
     (if field \<in> set (df_columns df) then
        (case analyze_temporal_field (timedelta_mean lib) (to_datetime lib (df_column df field)) of
           Inl e \<Rightarrow> Inl e
         | Inr field_stats \<Rightarrow> temporal_loop lib df others (dict_set stats field field_stats))
      else temporal_loop lib df others stats)"

text \<open>
  \<open>sorted(items, key=..., reverse=True)\<close>: Python sorts with \<open><\<close> on the keys alone and
  keeps the order of items whose keys are equal; with \<open>reverse\<close> the list is reversed
  before and after. Keys that are NaN are not ordered, and for them the order that
  CPython produces depends on the comparisons its merge sort happens to make; this
  insertion sort stands for it.
\<close>

fun insert_by :: "('a \<Rightarrow> 'a \<Rightarrow> bool) \<Rightarrow> 'a \<Rightarrow> 'a list \<Rightarrow> 'a list" where
  "insert_by lt x [] = [x]"
| "insert_by lt x (y # ys) = (if lt y x then y # insert_by lt x ys else x # y # ys)"

definition py_sorted :: "('a \<Rightarrow> 'a \<Rightarrow> bool) \<Rightarrow> 'a list \<Rightarrow> 'a list" where
  "py_sorted lt xs = foldr (insert_by lt) xs []"

definition py_sorted_reverse :: "('a \<Rightarrow> 'a \<Rightarrow> bool) \<Rightarrow> 'a list \<Rightarrow> 'a list" where
  "py_sorted_reverse lt xs = rev (py_sorted lt (rev xs))"

text \<open>
  \<open>np.histogram(data, bins)\<close>: bins of equal width between the minimum and the maximum
  (widened by one half on each side when they coincide), the last bin closed on the right.
\<close>

definition histogram :: "real list \<Rightarrow> nat \<Rightarrow> nat list \<times> real list" where
  "histogram xs bins =
     (let mn = list_min xs;
          mx = list_max xs;
          first_edge = (if mn = mx then mn - 1 / 2 else mn);
          last_edge = (if mn = mx then mx + 1 / 2 else mx);
          bin_edges = map (\<lambda>i. first_edge + (last_edge - first_edge) * real i / real bins)
                          [0 ..< bins + 1];
          bin_of = (\<lambda>x. if x = last_edge then bins - 1
                         else nat \<lfloor>(x - first_edge) / (last_edge - first_edge) * real bins\<rfloor>);
          hist = map (\<lambda>b. length (filter (\<lambda>x. bin_of x = b) xs)) [0 ..< bins]
      in (hist, bin_edges))"

datatype chart_data =
    Histogram string "real list" "nat list" pyfloat pyfloat
  | Bar string "string list" "nat list" "real list"

text \<open>
  The histogram loop; a field whose histogram raises (a column that holds a string or
  an infinity) is skipped.
\<close>

fun histogram_loop ::
    "row list \<Rightarrow> (string \<times> numeric_stats) list \<Rightarrow> chart_data list \<Rightarrow> chart_data list" where
  "histogram_loop df [] charts = charts"
| "histogram_loop df ((field, stats) # items) charts =
     (if field \<in> set (df_columns df) then
        (case numeric_series (df_column df field) of
           Inl e \<Rightarrow> histogram_loop df items charts
         | Inr series \<Rightarrow>
             (let data = map snd (dropna (map notna series))
              in if length data > 0 then
                   (if list_all is_finite data then
                      (case histogram (map real_of data) 20 of
                         (hist, bin_edges) \<Rightarrow>
                           histogram_loop df items
                             (charts @ [Histogram field bin_edges hist (mean_val stats)
                                          (median_val stats)]))
                    else histogram_loop df items charts)
                 else histogram_loop df items charts))
      else histogram_loop df items charts)"

fun bar_loop :: "(string \<times> categorical_stats) list \<Rightarrow> chart_data list \<Rightarrow> chart_data list" where
  "bar_loop [] charts = charts"
| "bar_loop ((field, stats) # items) charts =
     (if top_n stats \<noteq> [] then
        bar_loop items
          (charts @ [Bar field (map te_value (top_n stats)) (map te_count (top_n stats))
                       (map te_percent (top_n stats))])
      else bar_loop items charts)"

definition generate_chart_data ::
    "row list \<Rightarrow> (string \<times> numeric_stats) list \<Rightarrow> (string \<times> categorical_stats) list
      \<Rightarrow> chart_data list" where
  "generate_chart_data df numeric_stats categorical_stats =
     (let numeric_fields_sorted =
            py_sorted_reverse (\<lambda>a b. float_lt (std_val (snd a)) (std_val (snd b))) numeric_stats;
          charts = histogram_loop df numeric_fields_sorted [];
          categorical_fields_sorted =
            py_sorted (\<lambda>a b. unique_count (snd a) < unique_count (snd b)) categorical_stats
      in bar_loop categorical_fields_sorted charts)"

text \<open>The DataCard; its \<open>correlations\<close> dict is either empty (\<open>None\<close>) or has both keys.\<close>

record data_card =
  dc_summary :: summary
  dc_numeric_stats :: "(string \<times> numeric_stats) list"
  dc_categorical_stats :: "(string \<times> categorical_stats) list"
  dc_temporal_stats :: "(string \<times> temporal_stats) list"
  dc_correlations :: "correlations option"
  dc_anomalies :: "anomaly list"
  dc_chart_data :: "chart_data list"

definition empty_data_card :: data_card where
  "empty_data_card =
     \<lparr>dc_summary =
        \<lparr>sm_record_count = 0, sm_field_count = None, sm_numeric_fields = None,
         sm_categorical_fields = None, sm_temporal_fields = None, sm_total_notional = None,
         sm_time_range = None\<rparr>,
      dc_numeric_stats = [],
      dc_categorical_stats = [],
      dc_temporal_stats = [],
      dc_correlations = None,
      dc_anomalies = [],
      dc_chart_data = []\<rparr>"

text \<open>
  \<open>generate\<close>: the guard for an empty dataset, then each step in the order of the
  source; the first step that raises ends the analysis.
\<close>

definition generate :: "pylib \<Rightarrow> analysis_request \<Rightarrow> error + data_card" where
  "generate lib request =
     (let df = rq_data request;
          opts = rq_options request
      in if df_empty df then Inr empty_data_card
         else
     (let schema = (case rq_schema request of
                      Some given \<Rightarrow> given
                    | None \<Rightarrow> infer_schema lib df)
      in case generate_summary lib df schema of
           Inl e \<Rightarrow> Inl e
         | Inr summary \<Rightarrow>
       (case numeric_loop df opts (sc_numeric schema) [] of
           Inl e \<Rightarrow> Inl e
         | Inr numeric_stats \<Rightarrow>
       (let categorical_stats = categorical_loop lib df opts (sc_categorical schema) []
        in case temporal_loop lib df (sc_temporal schema) [] of
             Inl e \<Rightarrow> Inl e
           | Inr temporal_stats \<Rightarrow>
          (case (if opt_compute_correlations opts \<and> length (sc_numeric schema) \<ge> 2
                 then (case compute_correlations df (sc_numeric schema) of
                         Inl e \<Rightarrow> Inl e
                       | Inr c \<Rightarrow> Inr (Some c))
                 else Inr None) of
             Inl e \<Rightarrow> Inl e
           | Inr correlations \<Rightarrow>
         (case detect_anomalies (length df) numeric_stats categorical_stats of
             Inl e \<Rightarrow> Inl e
           | Inr anomalies \<Rightarrow>
               Inr \<lparr>dc_summary = summary,
                    dc_numeric_stats = numeric_stats,
                    dc_categorical_stats = categorical_stats,
                    dc_temporal_stats = temporal_stats,
                    dc_correlations = correlations,
                    dc_anomalies = anomalies,
                    dc_chart_data =
                      (if opt_include_distributions opts
                       then generate_chart_data df numeric_stats categorical_stats
                       else [])\<rparr>))))))"

section \<open>Properties of the sanitization pass\<close>

text \<open>
  C9. The sanitization pass returns a tree of the same structure (same keys in the same
  order, lists of the same length) in which every non-finite float, at any depth, has
  become \<open>None\<close> and every other leaf is unchanged; hence the result holds no
  non-finite float anywhere.
\<close>

theorem clean_nan_values_sanitizes:
  "sanitized t (clean_nan_values t) \<and> \<not> contains_non_finite (clean_nan_values t)"
  by (induction t rule: clean_nan_values.induct)
     (auto simp: list_all2_map2 list_ex_iff list_all2_same split: prod.splits)

theorem clean_nan_values_sanitizes_witness:
  "sanitized
     (PDict [(KStr ''std'', PFloat NaN),
             (KStr ''bins'', PList [PFloat (Finite 1), PFloat PosInf, PInt 3]),
             (KInt 2, PFloat NegInf)])
     (PDict [(KStr ''std'', PNone),
             (KStr ''bins'', PList [PFloat (Finite 1), PNone, PInt 3]),
             (KInt 2, PNone)])
   \<and> \<not> contains_non_finite
         (PDict [(KStr ''std'', PNone),
                 (KStr ''bins'', PList [PFloat (Finite 1), PNone, PInt 3]),
                 (KInt 2, PNone)])"
  using clean_nan_values_sanitizes
    [of "PDict [(KStr ''std'', PFloat NaN),
                (KStr ''bins'', PList [PFloat (Finite 1), PFloat PosInf, PInt 3]),
                (KInt 2, PFloat NegInf)]"]
  by simp

section \<open>Properties of dropna\<close>

lemma dropna_from_vals:
  "map snd (dropna_from i s) = map the (filter (\<lambda>x. x \<noteq> None) s)"
  by (induction i s rule: dropna_from.induct) auto

lemma dropna_vals: "map snd (dropna s) = map the (filter (\<lambda>x. x \<noteq> None) s)"
  by (simp add: dropna_def dropna_from_vals)

lemma dropna_length: "length (dropna s) = length (filter (\<lambda>x. x \<noteq> None) s)"
  using arg_cong [OF dropna_vals [of s], of length] by simp

section \<open>Properties of the categorical analyzer\<close>

lemma sum_list_insort_key:
  "sum_list (map g (insort_key f x xs)) = g x + sum_list (map g xs)" for g :: "'a \<Rightarrow> 'b::comm_monoid_add"
  by (induction xs) (auto simp: add.left_commute)

lemma sum_list_sort_key:
  "sum_list (map g (sort_key f xs)) = sum_list (map g xs)" for g :: "'a \<Rightarrow> 'b::comm_monoid_add"
  by (induction xs) (auto simp: sum_list_insort_key)

lemma unique_values_distinct: "distinct (unique_values xs)"
  by (simp add: unique_values_def)

lemma unique_values_set: "set (unique_values xs) = set xs"
  by (simp add: unique_values_def)

lemma sum_list_value_counts:
  "sum_list (map (\<lambda>(v, c). g c) (value_counts xs)) = (\<Sum>v\<in>set xs. g (count_list xs v))"
  for g :: "nat \<Rightarrow> 'b::comm_monoid_add"
proof -
  have "sum_list (map (\<lambda>(v, c). g c) (value_counts xs))
        = sum_list (map (\<lambda>v. g (count_list xs v)) (unique_values xs))"
    by (simp add: value_counts_def sum_list_sort_key comp_def)
  also have "\<dots> = (\<Sum>v\<in>set (unique_values xs). g (count_list xs v))"
    by (rule sum_list_distinct_conv_sum_set [OF unique_values_distinct])
  finally show ?thesis by (simp add: unique_values_set)
qed

lemma value_counts_total: "sum_list (map snd (value_counts xs)) = length xs"
proof -
  have "sum_list (map snd (value_counts xs)) = sum_list (map (\<lambda>(v, c). c) (value_counts xs))"
    by (simp add: case_prod_unfold)
  also have "\<dots> = (\<Sum>v\<in>set xs. count_list xs v)" by (rule sum_list_value_counts)
  also have "\<dots> = length xs" by (rule sum_count_set) simp_all
  finally show ?thesis .
qed

lemma hhi_bounds:
  assumes "xs \<noteq> []"
  shows "0 < (\<Sum>v\<in>set xs. (real (count_list xs v) / real (length xs))\<^sup>2)"
    and "(\<Sum>v\<in>set xs. (real (count_list xs v) / real (length xs))\<^sup>2) \<le> 1"
proof -
  let ?n = "real (length xs)"
  have n: "0 < ?n" using assms by simp
  have pos: "0 < real (count_list xs v) / ?n" if "v \<in> set xs" for v
  proof -
    have "count_list xs v \<noteq> 0" using that by (simp add: count_list_0_iff)
    then show ?thesis using n by simp
  qed
  show "0 < (\<Sum>v\<in>set xs. (real (count_list xs v) / ?n)\<^sup>2)"
  proof (rule sum_pos)
    show "finite (set xs)" by simp
    show "set xs \<noteq> {}" using assms by simp
    fix v assume "v \<in> set xs"
    then have "0 < real (count_list xs v) / ?n" by (rule pos)
    then show "0 < (real (count_list xs v) / ?n)\<^sup>2" by (rule zero_less_power)
  qed
  have le1: "real (count_list xs v) / ?n \<le> 1" for v
    using n count_le_length [of xs v] by simp
  have "(\<Sum>v\<in>set xs. (real (count_list xs v) / ?n)\<^sup>2)
        \<le> (\<Sum>v\<in>set xs. real (count_list xs v) / ?n)"
  proof (rule sum_mono)
    fix v assume "v \<in> set xs"
    define p where "p = real (count_list xs v) / ?n"
    have "0 \<le> p" by (simp add: p_def)
    moreover have "p \<le> 1" unfolding p_def by (rule le1)
    ultimately have "p * p \<le> p * 1" by (intro mult_left_mono)
    then show "(real (count_list xs v) / ?n)\<^sup>2 \<le> real (count_list xs v) / ?n"
      unfolding p_def [symmetric] power2_eq_square by simp
  qed
  also have "\<dots> = (\<Sum>v\<in>set xs. real (count_list xs v)) / ?n"
    by (simp add: sum_divide_distrib)
  also have "(\<Sum>v\<in>set xs. real (count_list xs v)) = real (\<Sum>v\<in>set xs. count_list xs v)"
    by simp
  also have "(\<Sum>v\<in>set xs. count_list xs v) = length xs"
    by (rule sum_count_set) simp_all
  finally show "(\<Sum>v\<in>set xs. (real (count_list xs v) / ?n)\<^sup>2) \<le> 1" using n by simp
qed

lemma concentration_risk_sum:
  "concentration_risk (analyze_categorical_field str series k)
   = (let present = map the (filter (\<lambda>x. x \<noteq> None) series)
      in \<Sum>v\<in>set present. (real (count_list present v) / real (length present))\<^sup>2)"
proof (cases "map the (filter (\<lambda>x. x \<noteq> None) series) = []")
  case True
  then show ?thesis
    by (simp add: analyze_categorical_field_def dropna_vals empty_categorical_stats_def Let_def)
next
  case False
  let ?p = "map the (filter (\<lambda>x. x \<noteq> None) series)"
  have "sum_list (map (\<lambda>p. p\<^sup>2) (map (\<lambda>(v, c). real c / real (length ?p)) (value_counts ?p)))
        = sum_list (map (\<lambda>(v, c). (real c / real (length ?p))\<^sup>2) (value_counts ?p))"
    by (simp add: comp_def case_prod_unfold)
  also have "\<dots> = (\<Sum>v\<in>set ?p. (real (count_list ?p v) / real (length ?p))\<^sup>2)"
    by (rule sum_list_value_counts)
  finally show ?thesis using False
    by (simp add: analyze_categorical_field_def dropna_vals Let_def)
qed

text \<open>
  C1 (amended). The concentration risk of a categorical field is the sum of the squared
  proportions of all distinct non-missing values of the field, whatever the top-N cut.
  When the field has at least one non-missing value it lies in the interval (0, 1];
  when it has none, the sentinel value 0 is returned, which is outside that interval.
\<close>

theorem concentration_risk_hhi:
  "(let present = map the (filter (\<lambda>x. x \<noteq> None) series);
        risk = concentration_risk (analyze_categorical_field str series k)
    in risk = (\<Sum>v\<in>set present. (real (count_list present v) / real (length present))\<^sup>2)
       \<and> (present \<noteq> [] \<longrightarrow> 0 < risk \<and> risk \<le> 1)
       \<and> (present = [] \<longrightarrow> risk = 0))"
  using concentration_risk_sum [of str series k]
        hhi_bounds [of "map the (filter (\<lambda>x. x \<noteq> None) series)"]
  by (auto simp: Let_def)

text \<open>
  C1 as stated fails on the empty input: the sentinel 0 is not in (0, 1].
\<close>

theorem concentration_risk_empty_counterexample:
  "\<not> (0 < concentration_risk (analyze_categorical_field (\<lambda>s :: string. s) [] 10)
      \<and> concentration_risk (analyze_categorical_field (\<lambda>s :: string. s) [] 10) \<le> 1)"
  by (simp add: analyze_categorical_field_def dropna_def empty_categorical_stats_def)

theorem concentration_risk_hhi_witness:
  "concentration_risk
     (analyze_categorical_field (\<lambda>s. s)
        [Some ''A'', Some ''A'', Some ''A'', Some ''A'', Some ''A'', Some ''A'', Some ''A'',
         Some ''A'', Some ''A'', None, Some ''B''] 10) = 82 / 100
   \<and> 0 < concentration_risk
         (analyze_categorical_field (\<lambda>s. s)
            [Some ''A'', Some ''A'', Some ''A'', Some ''A'', Some ''A'', Some ''A'', Some ''A'',
             Some ''A'', Some ''A'', None, Some ''B''] 10)"
  using concentration_risk_hhi
    [of "[Some ''A'', Some ''A'', Some ''A'', Some ''A'', Some ''A'', Some ''A'', Some ''A'',
         Some ''A'', Some ''A'', None, Some ''B'']" "\<lambda>s. s" 10]
  by (simp add: Let_def power2_eq_square)

section \<open>Properties of top-N\<close>

lemma py_round_le: "real_of_int (py_round y) \<le> y + 1 / 2"
  unfolding py_round_def Let_def by (auto; linarith)

lemma round_ndigits_2_le: "round_ndigits x 2 \<le> x + 5 / 1000"
proof -
  have "real_of_int (py_round (x * 100)) \<le> x * 100 + 1 / 2" by (rule py_round_le)
  then have "real_of_int (py_round (x * 100)) / 100 \<le> (x * 100 + 1 / 2) / 100"
    by (rule divide_right_mono) simp
  then show ?thesis by (simp add: round_ndigits_def add_divide_distrib)
qed

lemma py_head_take: "\<exists>m. py_head k xs = take m xs"
  unfolding py_head_def by auto

lemma sum_list_take_le: "sum_list (map f (take m xs)) \<le> sum_list (map f xs)" for f :: "'a \<Rightarrow> nat"
proof -
  have "sum_list (map f xs) = sum_list (map f (take m xs)) + sum_list (map f (drop m xs))"
    by (metis append_take_drop_id map_append sum_list_append)
  then show ?thesis by simp
qed

lemma sum_list_le_add:
  assumes "\<And>x. f x \<le> g x + (e::real)"
  shows "sum_list (map f ys) \<le> sum_list (map g ys) + real (length ys) * e"
proof (induction ys)
  case Nil then show ?case by simp
next
  case (Cons y ys)
  have h: "f y \<le> g y + e" by (rule assms)
  have L: "real (length (y # ys)) * e = e + real (length ys) * e"
    by (simp add: algebra_simps)
  show ?case unfolding list.map sum_list.Cons L using h Cons.IH by linarith
qed

lemma sum_list_percent_bound:
  "sum_list (map (\<lambda>(v, c). round_ndigits (real c / n * 100) 2) ys)
   \<le> sum_list (map (\<lambda>(v, c). real c / n * 100) ys) + real (length ys) * (5 / 1000)"
proof (rule sum_list_le_add)
  fix x :: "'a \<times> nat"
  show "(case x of (v, c) \<Rightarrow> round_ndigits (real c / n * 100) 2)
        \<le> (case x of (v, c) \<Rightarrow> real c / n * 100) + 5 / 1000"
    unfolding case_prod_unfold by (rule round_ndigits_2_le)
qed

lemma sum_list_percent_exact:
  "sum_list (map (\<lambda>(v, c). real c / n * 100) ys) = real (sum_list (map snd ys)) / n * 100"
  by (induction ys) (auto simp: add_divide_distrib algebra_simps)

text \<open>
  C4 (amended). The counts of the top-N entries add up to at most the number of
  non-missing values, and their exact percentages (count / total * 100) to at most 100.
  Each reported percentage is rounded to two decimals, so the reported percentages add up
  to at most 100 plus 0.005 for each entry.
\<close>

theorem top_n_sums:
  "(let present = map the (filter (\<lambda>x. x \<noteq> None) series);
        top = top_n (analyze_categorical_field str series k)
    in sum_list (map te_count top) \<le> length present
       \<and> sum_list (map (\<lambda>e. real (te_count e) / real (length present) * 100) top) \<le> 100
       \<and> sum_list (map te_percent top) \<le> 100 + real (length top) * (5 / 1000))"
proof (cases "map the (filter (\<lambda>x. x \<noteq> None) series) = []")
  case True
  then show ?thesis
    by (simp add: analyze_categorical_field_def dropna_vals empty_categorical_stats_def Let_def)
next
  case False
  let ?p = "map the (filter (\<lambda>x. x \<noteq> None) series)"
  let ?n = "real (length ?p)"
  obtain m where m: "py_head k (value_counts ?p) = take m (value_counts ?p)"
    using py_head_take by blast
  let ?ys = "take m (value_counts ?p)"
  have top: "top_n (analyze_categorical_field str series k)
             = map (\<lambda>(v, c). \<lparr>te_value = str v, te_count = c,
                                te_percent = round_ndigits (real c / ?n * 100) 2\<rparr>) ?ys"
    using False m by (simp add: analyze_categorical_field_def dropna_vals Let_def)
  have n: "0 < ?n" using False by simp
  have cnt: "sum_list (map snd ?ys) \<le> length ?p"
    using sum_list_take_le [of snd m "value_counts ?p"] value_counts_total [of ?p] by simp
  have c1: "map te_count (top_n (analyze_categorical_field str series k)) = map snd ?ys"
    unfolding top by (simp add: comp_def case_prod_unfold)
  have c2: "map (\<lambda>e. real (te_count e) / ?n * 100) (top_n (analyze_categorical_field str series k))
            = map (\<lambda>(v, c). real c / ?n * 100) ?ys"
    unfolding top by (simp add: comp_def case_prod_unfold)
  have c3: "map te_percent (top_n (analyze_categorical_field str series k))
            = map (\<lambda>(v, c). round_ndigits (real c / ?n * 100) 2) ?ys"
    unfolding top by (simp add: comp_def case_prod_unfold)
  have len: "length (top_n (analyze_categorical_field str series k)) = length ?ys"
    unfolding top by simp
  have "real (sum_list (map snd ?ys)) \<le> ?n" using cnt by linarith
  then have "real (sum_list (map snd ?ys)) / ?n \<le> 1" using n by simp
  then have "real (sum_list (map snd ?ys)) / ?n * 100 \<le> 1 * 100"
    by (rule mult_right_mono) simp
  then have e: "real (sum_list (map snd ?ys)) / ?n * 100 \<le> 100"
    unfolding mult_1 .
  have s1: "sum_list (map te_count (top_n (analyze_categorical_field str series k))) \<le> length ?p"
    unfolding c1 by (rule cnt)
  have s2: "sum_list (map (\<lambda>e. real (te_count e) / ?n * 100)
              (top_n (analyze_categorical_field str series k))) \<le> 100"
    unfolding c2 sum_list_percent_exact by (rule e)
  have s3: "sum_list (map te_percent (top_n (analyze_categorical_field str series k)))
            \<le> 100 + real (length (top_n (analyze_categorical_field str series k))) * (5 / 1000)"
    unfolding c3 len
    using sum_list_percent_bound [of ?n ?ys] e
    unfolding sum_list_percent_exact by linarith
  show ?thesis unfolding Let_def using s1 s2 s3 by blast
qed

text \<open>
  C4 as stated fails: six values that occur once each have the rounded percentage 16.67,
  and the six percentages add up to 100.02.
\<close>

theorem top_n_percent_sum_counterexample:
  "\<not> sum_list (map te_percent (top_n (analyze_categorical_field (\<lambda>s. s)
        [Some ''a'', Some ''b'', Some ''c'', Some ''d'', Some ''e'', Some ''f''] 10))) \<le> 100"
  by (simp add: analyze_categorical_field_def dropna_def value_counts_def unique_values_def
        py_head_def round_ndigits_def py_round_def Let_def)

theorem top_n_sums_witness:
  "sum_list (map te_count (top_n (analyze_categorical_field (\<lambda>s. s)
        [Some ''a'', Some ''b'', None, Some ''a''] 1))) \<le> 3"
  using top_n_sums [of "[Some ''a'', Some ''b'', None, Some ''a'']" "\<lambda>s. s" 1]
  by (simp add: Let_def)

section \<open>Properties of the correlation map\<close>

lemma enumerate_map_nth: "enumerate 0 xs = map (\<lambda>j. (j, xs ! j)) [0 ..< length xs]"
  by (rule nth_equalityI) (simp_all add: nth_enumerate_eq)

lemma corr_pair_visit:
  "corr_pair cm (i, cols ! i) (j, cols ! j)
   = (\<lambda>acc. if i < j then visit cm cols (i, j) acc else acc)"
  by (rule ext)
     (simp add: corr_pair_def visit_def emit_def pair_key_def is_significant_def
        significant_of_def split: option.splits)

lemma fold_product:
  "fold (\<lambda>x acc. fold (\<lambda>y acc'. f (x, y) acc') ys acc) xs acc0 = fold f (List.product xs ys) acc0"
  by (induction xs arbitrary: acc0) (simp_all add: fold_map comp_def)

lemma fold_filter_if:
  "fold (\<lambda>x acc. if P x then f x acc else acc) xs acc0 = fold f (filter P xs) acc0"
  by (induction xs arbitrary: acc0) simp_all

lemma loops_upper_triangle:
  "fold (\<lambda>ic1 acc. fold (\<lambda>jc2 acc'. corr_pair cm ic1 jc2 acc') (enumerate 0 cols) acc)
        (enumerate 0 cols) acc0
   = fold (visit cm cols) (upper_triangle (length cols)) acc0"
proof -
  let ?n = "length cols"
  let ?step = "\<lambda>p acc. if (case p of (i, j) \<Rightarrow> i < j) then visit cm cols p acc else acc"
  have "fold (\<lambda>ic1 acc. fold (\<lambda>jc2 acc'. corr_pair cm ic1 jc2 acc') (enumerate 0 cols) acc)
             (enumerate 0 cols) acc0
        = fold (\<lambda>i acc. fold (\<lambda>j acc'. ?step (i, j) acc') [0 ..< ?n] acc) [0 ..< ?n] acc0"
    by (simp add: enumerate_map_nth fold_map comp_def corr_pair_visit)
  also have "\<dots> = fold ?step (List.product [0 ..< ?n] [0 ..< ?n]) acc0"
    by (rule fold_product)
  also have "\<dots> = fold (visit cm cols) (upper_triangle ?n) acc0"
    unfolding upper_triangle_def by (rule fold_filter_if)
  finally show ?thesis .
qed

lemma fold_visit_emit:
  "fold (visit cm cols) ps acc = fold emit
     (List.map_filter (\<lambda>(i, j). map_option (\<lambda>r. (cols ! i, cols ! j, r)) (cm (cols ! i) (cols ! j))) ps)
     acc"
  by (induction ps arbitrary: acc)
     (auto simp: visit_def split: option.splits)

lemma loops_emitted:
  "fold (\<lambda>ic1 acc. fold (\<lambda>jc2 acc'. corr_pair cm ic1 jc2 acc') (enumerate 0 cols) acc)
        (enumerate 0 cols) acc0
   = fold emit (emitted_pairs cm cols) acc0"
  by (simp add: loops_upper_triangle fold_visit_emit emitted_pairs_def)

lemma significant_fold_emit:
  "significant (fold emit es acc) = significant acc @ map significant_of (filter is_significant es)"
  by (induction es arbitrary: acc) (simp_all add: emit_def)

lemma map_of_dict_set: "map_of (dict_set d k v) = (map_of d)(k \<mapsto> v)"
  by (induction d k v rule: dict_set.induct) auto

lemma set_fst_dict_set: "set (map fst (dict_set d k v)) = insert k (set (map fst d))"
  by (induction d k v rule: dict_set.induct) auto

lemma distinct_dict_set: "distinct (map fst d) \<Longrightarrow> distinct (map fst (dict_set d k v))"
proof (induction d k v rule: dict_set.induct)
  case (1 k v) then show ?case by simp
next
  case (2 k' v' d k v)
  then show ?case using set_fst_dict_set [of d k v] by auto
qed

lemma pearson_fold_emit:
  "map_of (pearson (fold emit es acc)) = map_of (rev (map pair_key es) @ pearson acc)"
proof (induction es arbitrary: acc)
  case Nil then show ?case by simp
next
  case (Cons e es)
  have "map_of (pearson (emit e acc)) = map_of (pair_key e # pearson acc)"
    by (simp add: emit_def map_of_dict_set)
  then show ?case using Cons.IH [of "emit e acc"] by (simp add: map_add_def)
qed

lemma distinct_fold_emit:
  "distinct (map fst (pearson acc)) \<Longrightarrow> distinct (map fst (pearson (fold emit es acc)))"
  by (induction es arbitrary: acc) (simp_all add: emit_def distinct_dict_set)

lemma upper_triangle_distinct: "distinct (upper_triangle n)"
  unfolding upper_triangle_def by (intro distinct_filter distinct_product) simp_all

lemma upper_triangle_set: "set (upper_triangle n) = {(i, j). i < j \<and> j < n}"
  unfolding upper_triangle_def by auto

lemma emitted_pairs_memD:
  assumes "(c1, c2, r) \<in> set (emitted_pairs cm cols)"
  shows "\<exists>i j. i < j \<and> j < length cols \<and> c1 = cols ! i \<and> c2 = cols ! j"
  using assms unfolding emitted_pairs_def List.map_filter_def
  by (fastforce simp: upper_triangle_set)

lemma emitted_pairs_unordered_distinct:
  assumes "distinct cols"
  shows "distinct (map unordered (emitted_pairs cm cols))"
proof -
  let ?h = "\<lambda>(i, j). map_option (\<lambda>r. (cols ! i, cols ! j, r)) (cm (cols ! i) (cols ! j))"
  let ?ps = "filter (\<lambda>p. ?h p \<noteq> None) (upper_triangle (length cols))"
  have e: "map unordered (emitted_pairs cm cols) = map (unordered \<circ> (the \<circ> ?h)) ?ps"
    by (simp add: emitted_pairs_def List.map_filter_def)
  have d: "distinct ?ps" by (intro distinct_filter upper_triangle_distinct)
  have inj: "inj_on (unordered \<circ> (the \<circ> ?h)) (set ?ps)"
  proof (rule inj_onI)
    fix p q assume p: "p \<in> set ?ps" and q: "q \<in> set ?ps"
      and eq: "(unordered \<circ> (the \<circ> ?h)) p = (unordered \<circ> (the \<circ> ?h)) q"
    obtain i j where pij: "p = (i, j)" by (cases p)
    obtain k l where qkl: "q = (k, l)" by (cases q)
    have ij: "i < j" "j < length cols" using p pij by (auto simp: upper_triangle_set)
    have kl: "k < l" "l < length cols" using q qkl by (auto simp: upper_triangle_set)
    have "{cols ! i, cols ! j} = {cols ! k, cols ! l}"
      using eq p q pij qkl by (auto simp: unordered_def)
    then have "(cols ! i = cols ! k \<and> cols ! j = cols ! l) \<or> (cols ! i = cols ! l \<and> cols ! j = cols ! k)"
      by (simp add: doubleton_eq_iff)
    then have "(i = k \<and> j = l) \<or> (i = l \<and> j = k)"
      using assms ij kl by (simp add: nth_eq_iff_index_eq)
    then show "p = q" using ij kl pij qkl by auto
  qed
  show ?thesis unfolding e using d inj by (simp add: distinct_map)
qed

lemma emitted_pairs_irreflexive:
  assumes "distinct cols" and "(c1, c2, r) \<in> set (emitted_pairs cm cols)"
  shows "c1 \<noteq> c2"
proof -
  obtain i j where "i < j" "j < length cols" "c1 = cols ! i" "c2 = cols ! j"
    using emitted_pairs_memD [OF assms(2)] by auto
  then show ?thesis using assms(1) by (simp add: nth_eq_iff_index_eq)
qed

text \<open>
  C8. With at least two numeric columns (each requested field a column of the dataset, no
  numeric column requested twice), the correlation computation succeeds. The pairs it
  emits are the pairs of the upper triangle whose coefficient is not NaN: no field is
  paired with itself and no unordered pair occurs twice. The map holds, under the key
  "field1_field2", the coefficient of the (last) emitted pair with that key, each key
  once; the significant list holds exactly the emitted pairs with |r| > 0.7, in order,
  tagged "strong" when |r| > 0.9 and "moderate" otherwise.
\<close>

theorem correlation_pairs:
  assumes "list_all (\<lambda>f. f \<in> set (df_columns df)) numeric_fields"
      and "2 \<le> length (select_numeric df numeric_fields)"
      and "distinct (select_numeric df numeric_fields)"
  shows "\<exists>res. compute_correlations df numeric_fields = Inr res
           \<and> (let es = emitted_pairs (corr_matrix df) (select_numeric df numeric_fields)
              in significant res = map significant_of (filter is_significant es)
                 \<and> map_of (pearson res) = map_of (rev (map pair_key es))
                 \<and> distinct (map fst (pearson res))
                 \<and> distinct (map unordered es)
                 \<and> (\<forall>e \<in> set es. fst e \<noteq> fst (snd e)))"
proof -
  let ?cols = "select_numeric df numeric_fields"
  let ?es = "emitted_pairs (corr_matrix df) ?cols"
  have "length ?cols \<le> length numeric_fields" by (simp add: select_numeric_def)
  then have len: "\<not> length numeric_fields < 2" using assms(2) by linarith
  have res: "compute_correlations df numeric_fields = Inr (fold emit ?es empty_correlations)"
    using assms len by (simp add: compute_correlations_def Let_def loops_emitted)
  have 1: "significant (fold emit ?es empty_correlations) = map significant_of (filter is_significant ?es)"
    by (simp add: significant_fold_emit empty_correlations_def)
  have 2: "map_of (pearson (fold emit ?es empty_correlations)) = map_of (rev (map pair_key ?es))"
    by (simp add: pearson_fold_emit empty_correlations_def)
  have 3: "distinct (map fst (pearson (fold emit ?es empty_correlations)))"
    by (rule distinct_fold_emit) (simp add: empty_correlations_def)
  have 4: "distinct (map unordered ?es)"
    by (rule emitted_pairs_unordered_distinct [OF assms(3)])
  have 5: "\<forall>e \<in> set ?es. fst e \<noteq> fst (snd e)"
    using emitted_pairs_irreflexive [OF assms(3)] by (metis prod.collapse)
  show ?thesis unfolding res Let_def using 1 2 3 4 5 by blast
qed

text \<open>
  Two rows, columns a and b equal and column c constant: a and b correlate perfectly, the
  coefficients with c are NaN.
\<close>

lemma corr_example_columns: "df_columns [[(''a'', Num 0), (''b'', Num 0), (''c'', Num 5)],
                [(''a'', Num 2), (''b'', Num 2), (''c'', Num 5)]] = [''a'', ''b'', ''c'']"
  by (simp add: df_columns_def unique_values_def)

lemma corr_example_select: "select_numeric [[(''a'', Num 0), (''b'', Num 0), (''c'', Num 5)],
                [(''a'', Num 2), (''b'', Num 2), (''c'', Num 5)]] [''a'', ''b'', ''c''] = [''a'', ''b'', ''c'']"
  by (simp add: select_numeric_def is_numeric_dtype_def df_column_def)

lemma upper_triangle_three: "upper_triangle (Suc (Suc (Suc 0))) = [(0, Suc 0), (0, Suc (Suc 0)), (Suc 0, Suc (Suc 0))]"
  by (simp add: upper_triangle_def upt_rec)

lemma corr_example_ab: "corr_matrix [[(''a'', Num 0), (''b'', Num 0), (''c'', Num 5)],
                [(''a'', Num 2), (''b'', Num 2), (''c'', Num 5)]] ''a'' ''b'' = Some 1"
  by (simp add: corr_matrix_def pearson_corr_def df_column_def mean_def Let_def)

lemma corr_example_ac: "corr_matrix [[(''a'', Num 0), (''b'', Num 0), (''c'', Num 5)],
                [(''a'', Num 2), (''b'', Num 2), (''c'', Num 5)]] ''a'' ''c'' = None"
  by (simp add: corr_matrix_def pearson_corr_def df_column_def mean_def Let_def)

lemma corr_example_bc: "corr_matrix [[(''a'', Num 0), (''b'', Num 0), (''c'', Num 5)],
                [(''a'', Num 2), (''b'', Num 2), (''c'', Num 5)]] ''b'' ''c'' = None"
  by (simp add: corr_matrix_def pearson_corr_def df_column_def mean_def Let_def)

lemma corr_example_emitted: "emitted_pairs (corr_matrix [[(''a'', Num 0), (''b'', Num 0), (''c'', Num 5)],
                [(''a'', Num 2), (''b'', Num 2), (''c'', Num 5)]]) [''a'', ''b'', ''c'']
             = [(''a'', ''b'', 1)]"
  by (simp add: emitted_pairs_def upper_triangle_three corr_example_ab corr_example_ac corr_example_bc)

theorem correlation_pairs_witness:
  "\<exists>res. compute_correlations
            [[(''a'', Num 0), (''b'', Num 0), (''c'', Num 5)],
             [(''a'', Num 2), (''b'', Num 2), (''c'', Num 5)]] [''a'', ''b'', ''c''] = Inr res
         \<and> significant res =
             [\<lparr>se_field1 = ''a'', se_field2 = ''b'', se_r = 1, se_strength = ''strong''\<rparr>]
         \<and> map_of (pearson res) = map_of [(''a_b'', 1)]"
  using correlation_pairs
    [of "[[(''a'', Num 0), (''b'', Num 0), (''c'', Num 5)],
          [(''a'', Num 2), (''b'', Num 2), (''c'', Num 5)]]" "[''a'', ''b'', ''c'']"]
  by (auto simp: corr_example_columns corr_example_select corr_example_emitted is_significant_def significant_of_def pair_key_def Let_def)

section \<open>Properties of the anomaly detection\<close>

lemma outlier_loop_filter:
  assumes "0 < len_df"
  shows "outlier_loop len_df items anomalies
         = Inr (anomalies @ map (\<lambda>(field, stats). outlier_anomaly len_df field stats)
                               (filter (\<lambda>(field, stats). outlier_count_of stats > 0) items))"
  using assms by (induction len_df items anomalies rule: outlier_loop.induct) simp_all

lemma concentration_loop_filter:
  "concentration_loop items anomalies
   = anomalies @ map (\<lambda>(field, stats). concentration_anomaly field stats)
                     (filter (\<lambda>(field, stats). concentration_risk stats > 25 / 100) items)"
  by (induction items anomalies rule: concentration_loop.induct) simp_all

text \<open>
  C7. For a dataset with at least one record, anomaly detection returns first one
  statistical-outlier anomaly for each numeric field whose outlier count is positive,
  then one concentration-risk anomaly for each categorical field whose concentration
  risk exceeds 0.25, each group in the order of its stats map. An outlier anomaly is
  "high" exactly when the outlier count exceeds a tenth of the number of records, a
  concentration anomaly exactly when the risk exceeds 0.5; both are "medium" otherwise.
  A concentration anomaly has no affected records.
\<close>

theorem anomaly_rules:
  assumes "0 < len_df"
  shows "detect_anomalies len_df numeric_stats categorical_stats
         = Inr (map (\<lambda>(field, stats). outlier_anomaly len_df field stats)
                    (filter (\<lambda>(field, stats). outlier_count_of stats > 0) numeric_stats)
                @ map (\<lambda>(field, stats). concentration_anomaly field stats)
                      (filter (\<lambda>(field, stats). concentration_risk stats > 25 / 100)
                              categorical_stats))
       \<and> an_field (outlier_anomaly len_df field nstats) = field
       \<and> an_type (outlier_anomaly len_df field nstats) = ''statistical_outlier''
       \<and> an_severity (outlier_anomaly len_df field nstats)
           = (if real (outlier_count_of nstats) > real len_df / 10 then ''high'' else ''medium'')
       \<and> an_field (concentration_anomaly field cstats) = field
       \<and> an_type (concentration_anomaly field cstats) = ''concentration_risk''
       \<and> an_severity (concentration_anomaly field cstats)
           = (if concentration_risk cstats > 1 / 2 then ''high'' else ''medium'')
       \<and> an_affected_records (concentration_anomaly field cstats) = []"
  using assms
  by (simp add: detect_anomalies_def outlier_loop_filter concentration_loop_filter
        outlier_anomaly_def concentration_anomaly_def Let_def)

text \<open>
  Ten records; one numeric field with two outliers and one with none; categorical fields
  with risks 0.82, 0.3 and 0.2.
\<close>

theorem anomaly_rules_witness:
  "\<exists>anomalies.
     detect_anomalies 10
       [(''amount'', empty_numeric_stats
            \<lparr>outliers := no_outlier_keys
               \<lparr>o_method := Some ''zscore'', o_count := Some 2, o_indices := Some [3, 7]\<rparr>\<rparr>),
        (''price'', empty_numeric_stats)]
       [(''region'', empty_categorical_stats \<lparr>concentration_risk := 82 / 100\<rparr>),
        (''desk'', empty_categorical_stats \<lparr>concentration_risk := 3 / 10\<rparr>),
        (''trader'', empty_categorical_stats \<lparr>concentration_risk := 2 / 10\<rparr>)]
     = Inr anomalies
     \<and> map (\<lambda>a. (an_type a, an_field a, an_severity a, an_affected_records a)) anomalies
       = [(''statistical_outlier'', ''amount'', ''high'', [3, 7]),
          (''concentration_risk'', ''region'', ''high'', []),
          (''concentration_risk'', ''desk'', ''medium'', [])]"
  using anomaly_rules [of 10
       "[(''amount'', empty_numeric_stats
            \<lparr>outliers := no_outlier_keys
               \<lparr>o_method := Some ''zscore'', o_count := Some 2, o_indices := Some [3, 7]\<rparr>\<rparr>),
        (''price'', empty_numeric_stats)]"
       "[(''region'', empty_categorical_stats \<lparr>concentration_risk := 82 / 100\<rparr>),
        (''desk'', empty_categorical_stats \<lparr>concentration_risk := 3 / 10\<rparr>),
        (''trader'', empty_categorical_stats \<lparr>concentration_risk := 2 / 10\<rparr>)]"]
  by (simp add: outlier_count_of_def outlier_anomaly_def concentration_anomaly_def
        empty_numeric_stats_def empty_categorical_stats_def no_outlier_keys_def Let_def)

section \<open>Properties of the numeric analyzer\<close>

lemma notna_None: "notna x = None \<longleftrightarrow> isnan x"
  by (cases x) simp_all

lemma clean_values:
  "map snd (dropna (map notna series)) = filter (\<lambda>x. \<not> isnan x) series"
proof -
  have "map the (filter (\<lambda>x. x \<noteq> None) (map notna series)) = filter (\<lambda>x. \<not> isnan x) series"
  proof (induction series)
    case Nil then show ?case by simp
  next
    case (Cons x xs) then show ?case by (cases x) simp_all
  qed
  then show ?thesis by (simp add: dropna_vals)
qed

lemma clean_length:
  "length (dropna (map notna series)) = length (filter (\<lambda>x. \<not> isnan x) series)"
  using arg_cong [OF clean_values [of series], of length] by simp

text \<open>
  C10. For a series with at least one non-missing value and an outlier method other than
  "zscore" and "iqr", the analysis returns (it is a total function) the same descriptive
  statistics as for either recognised method, and its outliers dict is exactly
  \<open>{"method": method, "count": 0}\<close>: no indices, values, threshold, maximum score or
  bounds.
\<close>

theorem unknown_method_outliers:
  assumes "method \<noteq> ''zscore''" and "method \<noteq> ''iqr''"
      and "list_ex (\<lambda>x. \<not> isnan x) series"
  shows "analyze_numeric_field series method threshold
         = (analyze_numeric_field series ''zscore'' threshold)
             \<lparr>outliers := no_outlier_keys \<lparr>o_method := Some method, o_count := Some 0\<rparr>\<rparr>
       \<and> analyze_numeric_field series method threshold
         = (analyze_numeric_field series ''iqr'' threshold)
             \<lparr>outliers := no_outlier_keys \<lparr>o_method := Some method, o_count := Some 0\<rparr>\<rparr>
       \<and> outliers (analyze_numeric_field series method threshold)
         = \<lparr>o_method = Some method, o_threshold = None, o_count = Some 0, o_indices = None,
            o_values = None, o_max_zscore = None, o_bounds = None\<rparr>"
proof -
  have "filter (\<lambda>x. \<not> isnan x) series \<noteq> []"
    using assms(3) by (simp add: list_ex_iff filter_empty_conv)
  then have ne: "dropna (map notna series) \<noteq> []"
    using clean_length [of series] by auto
  have d: "detect_outliers (dropna (map notna series)) method threshold
           = no_outlier_keys \<lparr>o_method := Some method, o_count := Some 0\<rparr>"
    using assms(1,2) by (simp add: detect_outliers_def)
  show ?thesis
    using ne d by (simp add: analyze_numeric_field_def Let_def no_outlier_keys_def)
qed

theorem unknown_method_outliers_witness:
  "outliers (analyze_numeric_field [Finite 10, NaN, Finite 20] ''mad'' 3)
   = \<lparr>o_method = Some ''mad'', o_threshold = None, o_count = Some 0, o_indices = None,
      o_values = None, o_max_zscore = None, o_bounds = None\<rparr>"
proof -
  have "''mad'' \<noteq> ''zscore''" and "''mad'' \<noteq> ''iqr''"
    and "list_ex (\<lambda>x. \<not> isnan x) [Finite 10, NaN, Finite 20]"
    by simp_all
  from unknown_method_outliers [OF this, of 3] show ?thesis by blast
qed

subsection \<open>The range of the doubles\<close>

lemma dbl_max_bounds: "10 ^ 308 < dbl_max" "dbl_max < 2 * 10 ^ 308"
  by (simp_all add: dbl_max_def)

lemma dbl_max_pos: "0 < dbl_max"
  using dbl_max_bounds(1) by (smt (verit) zero_less_power)

lemma fl_in_range: "\<bar>x\<bar> \<le> dbl_max \<Longrightarrow> fl x = Finite x"
  by (auto simp: fl_def)

subsection \<open>Least and greatest element\<close>

lemma fold_min_le: "fold min xs (a::real) \<le> a"
proof (induction xs arbitrary: a)
  case Nil then show ?case by simp
next
  case (Cons y ys)
  have "fold min ys (min y a) \<le> min y a" by (rule Cons.IH)
  then show ?case by simp
qed

lemma fold_min_le_mem: "x \<in> set xs \<Longrightarrow> fold min xs (a::real) \<le> x"
proof (induction xs arbitrary: a)
  case Nil then show ?case by simp
next
  case (Cons y ys)
  show ?case
  proof (cases "x = y")
    case True
    have "fold min ys (min y a) \<le> min y a" by (rule fold_min_le)
    then show ?thesis using True by simp
  next
    case False
    then have "x \<in> set ys" using Cons.prems by simp
    then show ?thesis using Cons.IH by simp
  qed
qed

lemma list_min_le: "x \<in> set xs \<Longrightarrow> list_min xs \<le> x"
  unfolding list_min_def
  by (cases xs) (auto intro: fold_min_le fold_min_le_mem)

lemma fold_max_ge: "a \<le> fold max xs (a::real)"
proof (induction xs arbitrary: a)
  case Nil then show ?case by simp
next
  case (Cons y ys)
  have "max y a \<le> fold max ys (max y a)" by (rule Cons.IH)
  then show ?case by simp
qed

lemma fold_max_ge_mem: "x \<in> set xs \<Longrightarrow> x \<le> fold max xs (a::real)"
proof (induction xs arbitrary: a)
  case Nil then show ?case by simp
next
  case (Cons y ys)
  show ?case
  proof (cases "x = y")
    case True
    have "max y a \<le> fold max ys (max y a)" by (rule fold_max_ge)
    then show ?thesis using True by simp
  next
    case False
    then have "x \<in> set ys" using Cons.prems by simp
    then show ?thesis using Cons.IH by simp
  qed
qed

lemma list_max_ge: "x \<in> set xs \<Longrightarrow> x \<le> list_max xs"
  unfolding list_max_def
  by (cases xs) (auto intro: fold_max_ge fold_max_ge_mem)

subsection \<open>Interpolation over the reals\<close>

lemma interp_bounds:
  assumes "sorted s" "0 \<le> h" "h \<le> real (length s) - 1"
  shows "s ! nat \<lfloor>h\<rfloor> \<le> interp s h"
    and "interp s h \<le> s ! min (nat \<lfloor>h\<rfloor> + 1) (length s - 1)"
    and "nat \<lfloor>h\<rfloor> < length s"
proof -
  define lo where "lo = nat \<lfloor>h\<rfloor>"
  define hi where "hi = min (lo + 1) (length s - 1)"
  have lo_le: "real lo \<le> h" using assms(2) by (simp add: lo_def)
  have h_lt: "h < real lo + 1" using assms(2) unfolding lo_def by linarith
  have "real lo \<le> real (length s) - 1" using lo_le assms(3) by linarith
  then have lo_lt: "lo < length s" by linarith
  then have hi_lt: "hi < length s" by (simp add: hi_def)
  have "lo \<le> hi" using lo_lt by (simp add: hi_def)
  then have d: "0 \<le> s ! hi - s ! lo"
    using assms(1) hi_lt by (simp add: sorted_nth_mono)
  have g0: "0 \<le> h - real lo" and g1: "h - real lo \<le> 1" using lo_le h_lt by linarith+
  have e: "interp s h = s ! lo + (s ! hi - s ! lo) * (h - real lo)"
    by (simp add: interp_def lo_def hi_def Let_def)
  have "0 \<le> (s ! hi - s ! lo) * (h - real lo)" using d g0 by simp
  then show "s ! nat \<lfloor>h\<rfloor> \<le> interp s h" using e by (simp add: lo_def)
  have "(s ! hi - s ! lo) * (h - real lo) \<le> (s ! hi - s ! lo) * 1"
    using d g1 by (rule mult_left_mono [rotated])
  then show "interp s h \<le> s ! min (nat \<lfloor>h\<rfloor> + 1) (length s - 1)"
    using e by (simp add: lo_def hi_def)
  show "nat \<lfloor>h\<rfloor> < length s" using lo_lt by (simp add: lo_def)
qed

lemma interp_mono:
  assumes s: "sorted s" and h0: "0 \<le> h1" and h12: "h1 \<le> h2" and hn: "h2 \<le> real (length s) - 1"
  shows "interp s h1 \<le> interp s h2"
proof -
  define l1 where "l1 = nat \<lfloor>h1\<rfloor>"
  define l2 where "l2 = nat \<lfloor>h2\<rfloor>"
  have l12: "l1 \<le> l2" unfolding l1_def l2_def using h12 by (simp add: floor_mono nat_mono)
  have b1: "interp s h1 \<le> s ! min (l1 + 1) (length s - 1)"
    unfolding l1_def using interp_bounds(2) [OF s h0] h12 hn by simp
  have b2: "s ! l2 \<le> interp s h2"
    unfolding l2_def using interp_bounds(1) [OF s _ hn] h0 h12 by simp
  have l2_lt: "l2 < length s"
    unfolding l2_def using interp_bounds(3) [OF s _ hn] h0 h12 by simp
  show ?thesis
  proof (cases "l1 = l2")
    case True
    define hi where "hi = min (l1 + 1) (length s - 1)"
    have hi_lt: "hi < length s" and "l1 \<le> hi" using l2_lt True by (simp_all add: hi_def)
    then have d: "0 \<le> s ! hi - s ! l1" using s by (simp add: sorted_nth_mono)
    have e1: "interp s h1 = s ! l1 + (s ! hi - s ! l1) * (h1 - real l1)"
      by (simp add: interp_def l1_def hi_def Let_def)
    have e2: "interp s h2 = s ! l1 + (s ! hi - s ! l1) * (h2 - real l1)"
      using True by (simp add: interp_def l1_def l2_def hi_def Let_def)
    have "(s ! hi - s ! l1) * (h1 - real l1) \<le> (s ! hi - s ! l1) * (h2 - real l1)"
      using d h12 by (intro mult_left_mono) simp_all
    then show ?thesis using e1 e2 by simp
  next
    case False
    then have "l1 + 1 \<le> l2" using l12 by simp
    then have "min (l1 + 1) (length s - 1) \<le> l2" by simp
    then have "s ! min (l1 + 1) (length s - 1) \<le> s ! l2"
      using s l2_lt by (simp add: sorted_nth_mono)
    then show ?thesis using b1 b2 by linarith
  qed
qed

text \<open>The virtual index of a quantile lies within the list.\<close>

lemma virtual_index_range:
  assumes "rs \<noteq> []" "0 \<le> q" "q \<le> 1"
  shows "0 \<le> (real (length rs) - 1) * q"
    and "(real (length rs) - 1) * q \<le> real (length (sort rs)) - 1"
proof -
  have n: "0 \<le> real (length rs) - 1" using assms(1) by (cases rs) simp_all
  show "0 \<le> (real (length rs) - 1) * q" using n assms(2) by simp
  have "(real (length rs) - 1) * q \<le> (real (length rs) - 1) * 1"
    using n assms(3) by (rule mult_left_mono [rotated])
  then show "(real (length rs) - 1) * q \<le> real (length (sort rs)) - 1" by simp
qed

lemma interp_sort_mono:
  assumes "rs \<noteq> []" "0 \<le> p" "p \<le> q" "q \<le> 1"
  shows "interp (sort rs) ((real (length rs) - 1) * p) \<le> interp (sort rs) ((real (length rs) - 1) * q)"
proof -
  have n: "0 \<le> real (length rs) - 1" using assms(1) by (cases rs) simp_all
  have b: "(real (length rs) - 1) * p \<le> (real (length rs) - 1) * q"
    using n assms(3) by (rule mult_left_mono [rotated])
  have p1: "p \<le> 1" using assms by linarith
  show ?thesis
    by (rule interp_mono [OF _ virtual_index_range(1) [OF assms(1,2) p1] b
          virtual_index_range(2)]) (use assms in simp_all)
qed

lemma interp_sort_between:
  assumes "rs \<noteq> []" "0 \<le> q" "q \<le> 1"
  shows "list_min rs \<le> interp (sort rs) ((real (length rs) - 1) * q)"
    and "interp (sort rs) ((real (length rs) - 1) * q) \<le> list_max rs"
proof -
  let ?s = "sort rs" and ?h = "(real (length rs) - 1) * q"
  note a = virtual_index_range(1) [OF assms] and c = virtual_index_range(2) [OF assms]
  have srt: "sorted ?s" by simp
  have lo: "nat \<lfloor>?h\<rfloor> < length ?s" by (rule interp_bounds(3) [OF srt a c])
  then have "?s ! nat \<lfloor>?h\<rfloor> \<in> set ?s" by (rule nth_mem)
  then have m1: "?s ! nat \<lfloor>?h\<rfloor> \<in> set rs" by simp
  have "min (nat \<lfloor>?h\<rfloor> + 1) (length ?s - 1) < length ?s" using lo by simp
  then have "?s ! min (nat \<lfloor>?h\<rfloor> + 1) (length ?s - 1) \<in> set ?s" by (rule nth_mem)
  then have m2: "?s ! min (nat \<lfloor>?h\<rfloor> + 1) (length ?s - 1) \<in> set rs" by simp
  show "list_min rs \<le> interp ?s ?h"
    using list_min_le [OF m1] interp_bounds(1) [OF srt a c] by linarith
  show "interp ?s ?h \<le> list_max rs"
    using list_max_ge [OF m2] interp_bounds(2) [OF srt a c] by linarith
qed

subsection \<open>Doubles without overflow behave like reals\<close>

lemma float_le_Finite [simp]: "float_le (Finite a) (Finite b) \<longleftrightarrow> a \<le> b"
  by (auto simp: float_le_def)

lemma float_insort_Finite:
  "float_insort (Finite r) (map Finite rs) = map Finite (insort r rs)"
  by (induction rs) simp_all

lemma float_sort_Finite: "float_sort (map Finite rs) = map Finite (sort rs)"
  unfolding float_sort_def sort_key_def
  by (induction rs) (simp_all add: float_insort_Finite)

lemma fold_float_min_Finite:
  "fold float_min2 (map Finite rs) (Finite a) = Finite (fold min rs a)"
  by (induction rs arbitrary: a) (auto simp: min_def)

lemma fold_float_max_Finite:
  "fold float_max2 (map Finite rs) (Finite a) = Finite (fold max rs a)"
  by (induction rs arbitrary: a) (auto simp: max_def)

lemma series_min_Finite: "rs \<noteq> [] \<Longrightarrow> series_min (map Finite rs) = Finite (list_min rs)"
  by (cases rs) (simp_all add: series_min_def float_min_def list_min_def fold_float_min_Finite)

lemma series_max_Finite: "rs \<noteq> [] \<Longrightarrow> series_max (map Finite rs) = Finite (list_max rs)"
  by (cases rs) (simp_all add: series_max_def float_max_def list_max_def fold_float_max_Finite)

lemma lerp_Finite:
  assumes "a \<le> b" "\<bar>a\<bar> \<le> dbl_max" "\<bar>b\<bar> \<le> dbl_max" "b - a \<le> dbl_max" "0 \<le> t" "t \<le> 1"
  shows "lerp (Finite a) (Finite b) t = Finite (a + (b - a) * t)"
proof -
  have d: "fsub (Finite b) (Finite a) = Finite (b - a)"
    using assms(1,4) by (simp add: fsub_def fl_in_range)
  have dt: "0 \<le> (b - a) * t" "(b - a) * t \<le> b - a"
    using assms(1,5,6) by (simp_all add: mult_left_le)
  have du: "0 \<le> (b - a) * (1 - t)" "(b - a) * (1 - t) \<le> b - a"
    using assms(1,5,6) by (simp_all add: mult_left_le)
  have m1: "fmul (Finite (b - a)) (Finite t) = Finite ((b - a) * t)"
    using dt assms(4) by (simp add: fl_in_range)
  have m2: "fmul (Finite (b - a)) (Finite (1 - t)) = Finite ((b - a) * (1 - t))"
    using du assms(4) by (simp add: fl_in_range)
  have r1: "\<bar>a + (b - a) * t\<bar> \<le> dbl_max" using dt assms(2,3) by linarith
  have e: "b - (b - a) * (1 - t) = a + (b - a) * t" by (simp add: algebra_simps)
  have r2: "\<bar>b - (b - a) * (1 - t)\<bar> \<le> dbl_max" using r1 e by simp
  show ?thesis
  proof (cases "t \<ge> 1 / 2")
    case True
    have "lerp (Finite a) (Finite b) t
          = fsub (Finite b) (fmul (fsub (Finite b) (Finite a)) (Finite (1 - t)))"
      using True by (simp add: lerp_def Let_def)
    also have "\<dots> = fsub (Finite b) (Finite ((b - a) * (1 - t)))"
      unfolding d m2 ..
    also have "\<dots> = fl (b - (b - a) * (1 - t))"
      by (simp add: fsub_def)
    finally show ?thesis using r2 e by (simp add: fl_in_range)
  next
    case False
    have "lerp (Finite a) (Finite b) t
          = fadd (Finite a) (fmul (fsub (Finite b) (Finite a)) (Finite t))"
      using False by (simp add: lerp_def Let_def)
    also have "\<dots> = fadd (Finite a) (Finite ((b - a) * t))"
      unfolding d m1 ..
    also have "\<dots> = fl (a + (b - a) * t)"
      by simp
    finally show ?thesis using r1 by (simp add: fl_in_range)
  qed
qed

lemma quantile_Finite:
  assumes ne: "rs \<noteq> []" and q: "0 \<le> q" "q \<le> 1"
      and dbl: "\<forall>r \<in> set rs. \<bar>r\<bar> \<le> dbl_max"
      and spread: "list_max rs - list_min rs \<le> dbl_max"
  shows "quantile (map Finite rs) q = Finite (interp (sort rs) ((real (length rs) - 1) * q))"
proof -
  let ?s = "sort rs" and ?h = "(real (length rs) - 1) * q"
  let ?lo = "nat \<lfloor>?h\<rfloor>" and ?hi = "min (nat \<lfloor>?h\<rfloor> + 1) (length rs - 1)"
  note a = virtual_index_range(1) [OF ne q] and c = virtual_index_range(2) [OF ne q]
  have srt: "sorted ?s" by simp
  have lo: "?lo < length ?s" by (rule interp_bounds(3) [OF srt a c])
  then have lo': "?lo < length rs" by simp
  have hi: "?hi < length rs" using lo' by simp
  have lohi: "?lo \<le> ?hi" using lo' by simp
  have ab: "?s ! ?lo \<le> ?s ! ?hi" using srt lohi hi by (simp add: sorted_nth_mono)
  have mlo: "?s ! ?lo \<in> set rs" using nth_mem [of ?lo ?s] lo by simp
  have mhi: "?s ! ?hi \<in> set rs" using nth_mem [of ?hi ?s] hi by simp
  have sp: "?s ! ?hi - ?s ! ?lo \<le> dbl_max"
    using list_min_le [OF mlo] list_max_ge [OF mhi] spread by linarith
  have g0: "0 \<le> ?h - real ?lo" using a by simp
  have g1: "?h - real ?lo \<le> 1" using a by linarith
  have "quantile (map Finite rs) q = lerp (Finite (?s ! ?lo)) (Finite (?s ! ?hi)) (?h - real ?lo)"
    using lo' hi by (simp add: quantile_def float_sort_Finite Let_def)
  also have "\<dots> = Finite (?s ! ?lo + (?s ! ?hi - ?s ! ?lo) * (?h - real ?lo))"
    using ab mlo mhi dbl sp g0 g1 by (intro lerp_Finite) auto
  also have "\<dots> = Finite (interp ?s ?h)" by (simp add: interp_def Let_def)
  finally show ?thesis .
qed

lemma finite_values:
  assumes "list_all is_finite xs"
  shows "xs = map Finite (map real_of xs)"
  using assms
proof (induction xs)
  case Nil then show ?case by simp
next
  case (Cons x xs) then show ?case by (cases x) simp_all
qed


text \<open>
  C3 as stated fails when the interpolation overflows: for the values -1e308 and 1e308
  the difference of the neighbours is infinite, q25 is +Infinity and q50 is -Infinity.
\<close>

lemma huge_bounds: "0 < huge" "huge \<le> dbl_max" "dbl_max < huge + huge"
  using dbl_max_bounds by (simp_all add: huge_def)

lemma overflow_example_sorted:
  "float_sort [Finite (- huge), Finite huge] = [Finite (- huge), Finite huge]"
  using huge_bounds(1) by (simp add: float_sort_def)

lemma overflow_example_diff: "fsub (Finite huge) (Finite (- huge)) = PosInf"
  using huge_bounds(3) by (simp add: fsub_def fl_def)

lemma overflow_example_q25:
  "q25 (analyze_numeric_field [Finite (- huge), Finite huge] ''zscore'' 3) = PosInf"
  by (simp add: analyze_numeric_field_def dropna_def quantile_def overflow_example_sorted
        lerp_def overflow_example_diff signed_inf_def Let_def)

lemma fsub_Finite_PosInf: "fsub (Finite x) PosInf = NegInf"
  by (simp add: fsub_def)

lemma overflow_example_q50:
  "q50 (analyze_numeric_field [Finite (- huge), Finite huge] ''zscore'' 3) = NegInf"
  by (simp add: analyze_numeric_field_def dropna_def quantile_def overflow_example_sorted
        lerp_def overflow_example_diff signed_inf_def fsub_Finite_PosInf Let_def)


lemma witness_sorted:
  "float_sort [Finite 30, Finite 10, Finite 20] = [Finite 10, Finite 20, Finite 30]"
  by (simp add: float_sort_def)

lemma dbl_max_ge_1000: "1000 \<le> dbl_max"
  by (simp add: dbl_max_def)


section \<open>Properties of the gap analysis\<close>

lemma checked_sub_ok: "0 \<le> a - b \<Longrightarrow> a - b \<le> i64_max \<Longrightarrow> checked_sub a b = Inr (a - b)"
  by (simp add: checked_sub_def)

lemma sorted_Cons_le_last:
  assumes "sorted (x # xs)"
  shows "x \<le> last (x # xs)"
proof -
  have "last (x # xs) \<in> set (x # xs)" by (rule last_in_set) simp
  then show ?thesis using assms by auto
qed

lemma diff_from_nth:
  assumes "sorted (p # xs)" and "last (p # xs) - p \<le> i64_max"
  shows "diff_from p xs
         = Inr (map (\<lambda>i. Some ((p # xs) ! (i + 1) - (p # xs) ! i)) [0 ..< length xs])"
  using assms
proof (induction xs arbitrary: p)
  case Nil then show ?case by simp
next
  case (Cons x xs)
  have px: "p \<le> x" using Cons.prems(1) by simp
  have srt: "sorted (x # xs)" using Cons.prems(1) by simp
  have xl: "x \<le> last (x # xs)" by (rule sorted_Cons_le_last [OF srt])
  have a: "0 \<le> x - p" using px by simp
  have b: "x - p \<le> i64_max" using xl Cons.prems(2) by simp
  have c: "last (x # xs) - x \<le> i64_max" using px Cons.prems(2) by simp
  have upt: "[0 ..< Suc (length xs)] = 0 # map Suc [0 ..< length xs]"
    by (simp add: upt_conv_Cons map_Suc_upt del: upt_Suc)
  show ?case
    using Cons.IH [OF srt c] checked_sub_ok [OF a b]
    by (simp add: upt comp_def del: upt_Suc)
qed

lemma diff_sorted:
  assumes "sorted s" and "last s - hd s \<le> i64_max"
  shows "\<exists>ds. diff s = Inr ds
              \<and> drop 1 ds = map (\<lambda>i. Some (s ! (i + 1) - s ! i)) [0 ..< length s - 1]"
proof (cases s)
  case Nil then show ?thesis by simp
next
  case (Cons p xs)
  then show ?thesis using assms diff_from_nth [of p xs] by (simp del: upt_Suc)
qed

lemma filter_gaps:
  "map the (filter (\<lambda>d. case d of None \<Rightarrow> False | Some td \<Rightarrow> td > 1 * day_ns)
              (map (\<lambda>i. Some (s ! (i + 1) - s ! i)) [0 ..< length s - 1]))
   = flagged_gaps s"
  unfolding flagged_gaps_def by (simp add: filter_map comp_def)

lemma timedelta_max_Max:
  assumes "xs \<noteq> []"
  shows "timedelta_max xs = Max (set xs)"
proof (cases xs)
  case Nil then show ?thesis using assms by simp
next
  case (Cons a list)
  have "Max (set (a # list)) = fold max list a" by (rule Max.set_eq_fold)
  then show ?thesis using Cons unfolding timedelta_max_def by simp
qed

lemma flagged_gaps_short: "length s < 2 \<Longrightarrow> flagged_gaps s = []"
  unfolding flagged_gaps_def
  by (cases s) (auto simp: less_Suc_eq)

lemma analyze_gaps_flagged:
  assumes "sorted s" and "last s - hd s \<le> i64_max"
      and "flagged_gaps s \<noteq> [] \<longrightarrow> mean_td (flagged_gaps s) = Inr m"
  shows "analyze_gaps mean_td s =
           Inr (if flagged_gaps s = []
                then \<lparr>g_count = 0, g_max_gap_days = 0, g_avg_gap_days = None\<rparr>
                else \<lparr>g_count = length (flagged_gaps s),
                      g_max_gap_days = Max (set (flagged_gaps s)) div day_ns,
                      g_avg_gap_days = Some (m div day_ns)\<rparr>)"
proof (cases "length s < 2")
  case True
  then show ?thesis by (simp add: analyze_gaps_def flagged_gaps_short)
next
  case False
  obtain ds where ds: "diff s = Inr ds"
    "drop 1 ds = map (\<lambda>i. Some (s ! (i + 1) - s ! i)) [0 ..< length s - 1]"
    using diff_sorted [OF assms(1,2)] by blast
  show ?thesis
  proof (cases "flagged_gaps s = []")
    case True
    then show ?thesis using False
      unfolding analyze_gaps_def Let_def ds sum.case filter_gaps by simp
  next
    case ne: False
    then have m: "mean_td (flagged_gaps s) = Inr m" using assms(3) by simp
    show ?thesis using False ne
      unfolding analyze_gaps_def Let_def ds sum.case filter_gaps
      by (simp add: timedelta_max_Max days_def m)
  qed
qed

text \<open>
  C5 (amended). For a temporal field with at least one parseable timestamp whose span
  from the earliest to the latest fits a 64-bit timedelta, and on which pandas' mean of
  the flagged gaps does not fail, the analysis succeeds and the gap analysis runs over
  the differences of consecutive timestamps in ascending order, flagging exactly those
  greater than one day. With no flagged difference (a single timestamp included) the
  result is \<open>{count: 0, max_gap_days: 0}\<close>; otherwise it reports the number of flagged
  gaps and the whole days of the largest one, and it has an \<open>avg_gap_days\<close> entry.
\<close>

theorem gap_analysis:
  assumes "list_ex (\<lambda>x. x \<noteq> None) series"
      and "last (sort (map the (filter (\<lambda>x. x \<noteq> None) series)))
           - hd (sort (map the (filter (\<lambda>x. x \<noteq> None) series))) \<le> i64_max"
      and "flagged_gaps (sort (map the (filter (\<lambda>x. x \<noteq> None) series))) \<noteq> [] \<longrightarrow>
           (\<exists>m. mean_td (flagged_gaps (sort (map the (filter (\<lambda>x. x \<noteq> None) series)))) = Inr m)"
  shows "\<exists>stats g.
           analyze_temporal_field mean_td series = Inr stats \<and> ts_gaps stats = Some g
           \<and> (let fl = flagged_gaps (sort (map the (filter (\<lambda>x. x \<noteq> None) series)))
              in g_count g = length fl
                 \<and> (fl = [] \<longrightarrow>
                      g = \<lparr>g_count = 0, g_max_gap_days = 0, g_avg_gap_days = None\<rparr>)
                 \<and> (fl \<noteq> [] \<longrightarrow>
                      g_max_gap_days g = Max (set fl) div day_ns \<and> g_avg_gap_days g \<noteq> None))"
proof -
  let ?s = "sort (map the (filter (\<lambda>x. x \<noteq> None) series))"
  have "filter (\<lambda>x. x \<noteq> None) series \<noteq> []"
    using assms(1) by (simp add: list_ex_iff filter_empty_conv)
  then have ne: "map snd (dropna series) \<noteq> []" by (simp add: dropna_vals)
  have "length ?s = length (filter (\<lambda>x. x \<noteq> None) series)" by simp
  then have sne: "?s \<noteq> []"
    using \<open>filter (\<lambda>x. x \<noteq> None) series \<noteq> []\<close> by (metis length_0_conv)
  have srt: "sorted ?s" by simp
  obtain a t where at: "?s = a # t" using sne by (cases ?s) auto
  have "hd ?s \<le> last ?s"
    using sorted_Cons_le_last [of a t] srt unfolding at by simp
  then have sub: "checked_sub (last ?s) (hd ?s) = Inr (last ?s - hd ?s)"
    using assms(2) by (simp add: checked_sub_ok)
  obtain m where m: "flagged_gaps ?s \<noteq> [] \<longrightarrow> mean_td (flagged_gaps ?s) = Inr m"
    using assms(3) by blast
  note g = analyze_gaps_flagged [of ?s mean_td m, OF srt assms(2) m]
  have len: "(length (map the (filter (\<lambda>x. x \<noteq> None) series)) = 0) = False"
    using \<open>filter (\<lambda>x. x \<noteq> None) series \<noteq> []\<close> by simp
  have eq: "analyze_temporal_field mean_td series =
              Inr \<lparr>ts_range = \<lparr>tr_start = Some (hd ?s), tr_end = Some (last ?s),
                                tr_days = days (last ?s - hd ?s)\<rparr>,
                   ts_gaps =
                     Some (if flagged_gaps ?s = []
                           then \<lparr>g_count = 0, g_max_gap_days = 0, g_avg_gap_days = None\<rparr>
                           else \<lparr>g_count = length (flagged_gaps ?s),
                                 g_max_gap_days = Max (set (flagged_gaps ?s)) div day_ns,
                                 g_avg_gap_days = Some (m div day_ns)\<rparr>),
                   ts_distribution =
                     Some (analyze_distribution (map the (filter (\<lambda>x. x \<noteq> None) series)))\<rparr>"
    unfolding analyze_temporal_field_def Let_def dropna_vals len if_False sub g sum.case ..
  show ?thesis unfolding eq Let_def by (cases "flagged_gaps ?s = []") auto
qed

text \<open>
  C5 as stated fails on a span that does not fit a timedelta: 1900-01-01 and 2199-12-31
  both parse, and the difference of the two raises.
\<close>

theorem gap_analysis_counterexample:
  "analyze_temporal_field (\<lambda>xs. Inr (sum_list xs div int (length xs)))
     [Some (- 2208988800000000000), Some 7258032000000000000] = Inl OverflowError"
  by (simp add: analyze_temporal_field_def dropna_def checked_sub_def i64_max_def)

text \<open>
  Timestamps at days 5, 0, 1 and 9 (one value unparseable): the sorted differences are
  1, 4 and 4 days, of which the two of 4 days are gaps.
\<close>

theorem gap_analysis_witness:
  "\<exists>stats g.
     analyze_temporal_field (\<lambda>xs. Inr (sum_list xs div int (length xs)))
       [Some (5 * 86400000000000), None, Some 0, Some 86400000000000, Some (9 * 86400000000000)]
     = Inr stats \<and> ts_gaps stats = Some g \<and> g_count g = 2 \<and> g_max_gap_days g = 4"
  using gap_analysis
    [of "[Some (5 * 86400000000000), None, Some 0, Some 86400000000000, Some (9 * 86400000000000)]"
        "\<lambda>xs. Inr (sum_list xs div int (length xs))"]
  by (auto simp: flagged_gaps_def day_ns_def i64_max_def Let_def upt_conv_Cons numeral_2_eq_2
        simp del: upt_Suc)

section \<open>Properties of the generator\<close>

text \<open>
  C6. For an empty dataset the generator returns the minimal DataCard, whatever the
  schema, the options and the library functions are: a summary with
  \<open>record_count = 0\<close> only, empty stats maps, empty correlations, no anomalies and no
  chart data. No analyzer contributes, and no later step can fail.
\<close>

theorem generate_empty_dataset:
  "generate lib \<lparr>rq_data = [], rq_schema = schema, rq_options = opts\<rparr>
   = Inr \<lparr>dc_summary =
            \<lparr>sm_record_count = 0, sm_field_count = None, sm_numeric_fields = None,
             sm_categorical_fields = None, sm_temporal_fields = None,
             sm_total_notional = None, sm_time_range = None\<rparr>,
          dc_numeric_stats = [],
          dc_categorical_stats = [],
          dc_temporal_stats = [],
          dc_correlations = None,
          dc_anomalies = [],
          dc_chart_data = []\<rparr>"
  by (simp add: generate_def df_empty_def empty_data_card_def)

lemma sqrt_100: "sqrt 100 = 10"
  using real_sqrt_abs [of 10] by simp

lemma amount_columns:
  "df_columns [[(''amount'', Num 10)], [(''amount'', Num 20)], [(''amount'', Num 30)]] = [''amount'']"
  by (simp add: df_columns_def unique_values_def)

lemma amount_column:
  "df_column [[(''amount'', Num 10)], [(''amount'', Num 20)], [(''amount'', Num 30)]] ''amount''
   = [Num 10, Num 20, Num 30]"
  by (simp add: df_column_def)

lemma amount_schema:
  "infer_schema lib [[(''amount'', Num 10)], [(''amount'', Num 20)], [(''amount'', Num 30)]]
   = \<lparr>sc_numeric = [''amount''], sc_categorical = [], sc_temporal = []\<rparr>"
  by (simp add: infer_schema_def infer_step_def amount_columns amount_column is_temporal_def
        is_numeric_dtype_def)

lemma fl_small: "\<bar>x\<bar> \<le> 1000 \<Longrightarrow> fl x = Finite x"
  using dbl_max_ge_1000 by (intro fl_in_range) linarith

lemma amount_sorted:
  "float_sort [Finite 10, Finite 20, Finite 30] = [Finite 10, Finite 20, Finite 30]"
  by (simp add: float_sort_def)

lemma amount_mean: "series_mean [Finite 10, Finite 20, Finite 30] = Finite 20"
  by (simp add: series_mean_def fsum_def fl_small)

lemma amount_std: "series_std [Finite 10, Finite 20, Finite 30] = Finite 10"
  by (simp add: series_std_def sum_sq_dev_def amount_mean fsum_def fsub_def fl_small sqrt_100)

lemma amount_quantiles:
  "quantile [Finite 10, Finite 20, Finite 30] (1 / 4) = Finite 15"
  "quantile [Finite 10, Finite 20, Finite 30] (1 / 2) = Finite 20"
  "quantile [Finite 10, Finite 20, Finite 30] (3 / 4) = Finite 25"
  by (simp_all add: quantile_def amount_sorted Let_def)
     (simp_all add: lerp_def fsub_def fl_small Let_def)

lemma amount_stats:
  "count (analyze_numeric_field [Finite 10, Finite 20, Finite 30] method threshold) = 3"
  "mean_val (analyze_numeric_field [Finite 10, Finite 20, Finite 30] method threshold) = Finite 20"
  "median_val (analyze_numeric_field [Finite 10, Finite 20, Finite 30] method threshold) = Finite 20"
  "min_val (analyze_numeric_field [Finite 10, Finite 20, Finite 30] method threshold) = Finite 10"
  "max_val (analyze_numeric_field [Finite 10, Finite 20, Finite 30] method threshold) = Finite 30"
  "std_val (analyze_numeric_field [Finite 10, Finite 20, Finite 30] method threshold) = Finite 10"
  "q25 (analyze_numeric_field [Finite 10, Finite 20, Finite 30] method threshold) = Finite 15"
  "q50 (analyze_numeric_field [Finite 10, Finite 20, Finite 30] method threshold) = Finite 20"
  "q75 (analyze_numeric_field [Finite 10, Finite 20, Finite 30] method threshold) = Finite 25"
  by (simp_all add: analyze_numeric_field_def dropna_def amount_mean amount_std amount_quantiles
        series_median_def amount_sorted series_min_def series_max_def float_min_def
        float_max_def Let_def)

lemma outlier_loop_total:
  assumes "0 < len_df"
  shows "\<exists>anomalies'. outlier_loop len_df items anomalies = Inr anomalies'"
  using assms by (induction len_df items anomalies rule: outlier_loop.induct) simp_all

lemma detect_anomalies_total:
  assumes "0 < len_df"
  shows "\<exists>anomalies. detect_anomalies len_df ns cs = Inr anomalies"
  using outlier_loop_total [OF assms, of ns "[]"] by (auto simp: detect_anomalies_def)

text \<open>
  C2. For the dataset of three records with amount 10, 20 and 30, analysed with the
  default options and an inferred schema, the generator succeeds and the numeric stats of
  "amount" are count 3, mean 20, median 20, min 10, max 30, std 10 (denominator N - 1),
  q25 15, q50 20 and q75 25.
\<close>

theorem amount_example:
  "\<exists>card stats.
     generate lib
       \<lparr>rq_data = [[(''amount'', Num 10)], [(''amount'', Num 20)], [(''amount'', Num 30)]],
        rq_schema = None,
        rq_options = \<lparr>opt_compute_correlations = True, opt_outlier_method = ''zscore'',
                      opt_outlier_threshold = 3, opt_top_n = 10,
                      opt_include_distributions = True\<rparr>\<rparr> = Inr card
     \<and> dc_numeric_stats card = [(''amount'', stats)]
     \<and> count stats = 3 \<and> mean_val stats = Finite 20 \<and> median_val stats = Finite 20
     \<and> min_val stats = Finite 10 \<and> max_val stats = Finite 30 \<and> std_val stats = Finite 10
     \<and> q25 stats = Finite 15 \<and> q50 stats = Finite 20 \<and> q75 stats = Finite 25"
proof -
  let ?df = "[[(''amount'', Num 10)], [(''amount'', Num 20)], [(''amount'', Num 30)]]"
  let ?st = "analyze_numeric_field [Finite 10, Finite 20, Finite 30] ''zscore'' 3"
  obtain anomalies where a: "detect_anomalies (length ?df) [(''amount'', ?st)] [] = Inr anomalies"
    using detect_anomalies_total [of "length ?df" "[(''amount'', ?st)]" "[]"] by auto
  have "\<exists>card. generate lib
       \<lparr>rq_data = ?df, rq_schema = None,
        rq_options = \<lparr>opt_compute_correlations = True, opt_outlier_method = ''zscore'',
                      opt_outlier_threshold = 3, opt_top_n = 10,
                      opt_include_distributions = True\<rparr>\<rparr> = Inr card
      \<and> dc_numeric_stats card = [(''amount'', ?st)]"
    using a
    by (simp add: generate_def df_empty_def amount_columns amount_column amount_schema
          generate_summary_def numeric_series_def summary_time_range_def Let_def)
  then show ?thesis using amount_stats [of "''zscore''" 3] by blast
qed

end
